theory Spec2Isabelle
  imports Main
begin

section \<open>JSON values as the Python code sees them\<close>

text \<open>
  The tools work on whatever \<^verbatim>\<open>response.json()\<close> decodes: \<^verbatim>\<open>None\<close>, booleans, integers,
  strings, lists and dictionaries (insertion ordered, with string keys). Numbers with a
  fractional part are not modelled. Text is a HOL string, whose characters are the code
  points 0 to 255.
\<close>

datatype json =
    JNull
  | JBool bool
  | JInt int
  | JStr string
  | JList "json list"
  | JObj "(string \<times> json) list"

text \<open>The exceptions that the operations on decoded values can raise.\<close>

datatype exn = TypeError | AttributeError | KeyError | IndexError

subsection \<open>Truth value, lookup, membership, iteration\<close>

text \<open>\<^verbatim>\<open>bool(x)\<close>, as tested by \<^verbatim>\<open>if x\<close> and \<^verbatim>\<open>if not x\<close>.\<close>

fun truthy :: "json \<Rightarrow> bool" where
  "truthy JNull = False"
| "truthy (JBool b) = b"
| "truthy (JInt n) = (n \<noteq> 0)"
| "truthy (JStr s) = (s \<noteq> [])"
| "truthy (JList xs) = (xs \<noteq> [])"
| "truthy (JObj kvs) = (kvs \<noteq> [])"

text \<open>Truth value of an \<^verbatim>\<open>Optional[str]\<close>.\<close>

fun truthy_str :: "string option \<Rightarrow> bool" where
  "truthy_str None = False"
| "truthy_str (Some s) = (s \<noteq> [])"

text \<open>\<^verbatim>\<open>isinstance(x, list)\<close>.\<close>

fun is_list :: "json \<Rightarrow> bool" where
  "is_list (JList xs) = True"
| "is_list j = False"

fun is_obj :: "json \<Rightarrow> bool" where
  "is_obj (JObj kvs) = True"
| "is_obj j = False"

text \<open>\<^verbatim>\<open>x.get(key, default)\<close>: only a dictionary has the method.\<close>

fun py_get :: "json \<Rightarrow> string \<Rightarrow> json \<Rightarrow> exn + json" where
  "py_get (JObj kvs) k d = Inr (case map_of kvs k of None \<Rightarrow> d | Some v \<Rightarrow> v)"
| "py_get j k d = Inl AttributeError"

text \<open>\<^verbatim>\<open>x[key]\<close> with a string key.\<close>

fun subscript :: "json \<Rightarrow> string \<Rightarrow> exn + json" where
  "subscript (JObj kvs) k = (case map_of kvs k of None \<Rightarrow> Inl KeyError | Some v \<Rightarrow> Inr v)"
| "subscript j k = Inl TypeError"

text \<open>\<^verbatim>\<open>x[0]\<close>.\<close>

fun index0 :: "json \<Rightarrow> exn + json" where
  "index0 (JList []) = Inl IndexError"
| "index0 (JList (x # xs)) = Inr x"
| "index0 (JStr []) = Inl IndexError"
| "index0 (JStr (c # cs)) = Inr (JStr [c])"
| "index0 (JObj kvs) = Inl KeyError"
| "index0 j = Inl TypeError"

fun is_prefix :: "string \<Rightarrow> string \<Rightarrow> bool" where
  "is_prefix [] ys = True"
| "is_prefix (x # xs) [] = False"
| "is_prefix (x # xs) (y # ys) = (x = y \<and> is_prefix xs ys)"

fun is_substring :: "string \<Rightarrow> string \<Rightarrow> bool" where
  "is_substring xs [] = (xs = [])"
| "is_substring xs (y # ys) = (is_prefix xs (y # ys) \<or> is_substring xs ys)"

text \<open>
  \<^verbatim>\<open>key in x\<close> for a string \<^verbatim>\<open>key\<close>: a key of a dictionary, an element of a list, a
  substring of a string; the other values are not containers.
\<close>

fun py_in :: "string \<Rightarrow> json \<Rightarrow> exn + bool" where
  "py_in k (JObj kvs) = Inr (k \<in> set (map fst kvs))"
| "py_in k (JList xs) = Inr (JStr k \<in> set xs)"
| "py_in k (JStr s) = Inr (is_substring k s)"
| "py_in k j = Inl TypeError"

text \<open>The elements a \<^verbatim>\<open>for\<close> loop or a comprehension visits.\<close>

fun py_iter :: "json \<Rightarrow> exn + json list" where
  "py_iter (JList xs) = Inr xs"
| "py_iter (JObj kvs) = Inr (map (\<lambda>kv. JStr (fst kv)) kvs)"
| "py_iter (JStr s) = Inr (map (\<lambda>c. JStr [c]) s)"
| "py_iter j = Inl TypeError"

text \<open>\<^verbatim>\<open>len(x)\<close>.\<close>

fun py_len :: "json \<Rightarrow> exn + nat" where
  "py_len (JList xs) = Inr (length xs)"
| "py_len (JObj kvs) = Inr (length kvs)"
| "py_len (JStr s) = Inr (length s)"
| "py_len j = Inl TypeError"

subsection \<open>Text\<close>

text \<open>
  \<^verbatim>\<open>str.lower\<close> on the code points 0 to 255: the letters A to Z and U+00C0 to U+00DE
  (without the multiplication sign U+00D7) move up by 32, which sets bit 5.
\<close>

fun lower_char :: "char \<Rightarrow> char" where
  "lower_char (Char b0 b1 b2 b3 b4 b5 b6 b7) =
     (let n = (of_char (Char b0 b1 b2 b3 b4 b5 b6 b7) :: nat)
      in if (65 \<le> n \<and> n \<le> 90) \<or> (192 \<le> n \<and> n \<le> 222 \<and> n \<noteq> 215)
         then Char b0 b1 b2 b3 b4 True b6 b7
         else Char b0 b1 b2 b3 b4 b5 b6 b7)"

definition lower :: "string \<Rightarrow> string" where
  "lower s = map lower_char s"

text \<open>\<^verbatim>\<open>v.lower()\<close> on a decoded value: only a string has the method.\<close>

fun py_lower :: "json \<Rightarrow> exn + string" where
  "py_lower (JStr s) = Inr (lower s)"
| "py_lower j = Inl AttributeError"

text \<open>
  \<^verbatim>\<open>method.upper() == "POST"\<close>. On the code points 0 to 255 only the ASCII letters have an
  ASCII upper case, so the comparison is decided by the ASCII letters alone.
\<close>

fun upper_ascii :: "char \<Rightarrow> char" where
  "upper_ascii (Char b0 b1 b2 b3 b4 b5 b6 b7) =
     (let n = (of_char (Char b0 b1 b2 b3 b4 b5 b6 b7) :: nat)
      in if 97 \<le> n \<and> n \<le> 122
         then Char b0 b1 b2 b3 b4 False b6 b7
         else Char b0 b1 b2 b3 b4 b5 b6 b7)"

definition upper_is_POST :: "string \<Rightarrow> bool" where
  "upper_is_POST m = (map upper_ascii m = ''POST'')"

text \<open>\<^verbatim>\<open>s.lstrip('/')\<close> and \<^verbatim>\<open>s.rstrip('/')\<close>.\<close>

definition lstrip_slash :: "string \<Rightarrow> string" where
  "lstrip_slash s = dropWhile (\<lambda>c. c = CHR ''/'') s"

definition rstrip_slash :: "string \<Rightarrow> string" where
  "rstrip_slash s = rev (dropWhile (\<lambda>c. c = CHR ''/'') (rev s))"

text \<open>
  \<^verbatim>\<open>s.strip()\<close> removes the white space of \<^verbatim>\<open>str.isspace\<close> at both ends: on the code points
  0 to 255 these are 9 to 13, 28 to 32, 133 and 160.
\<close>

definition is_space :: "char \<Rightarrow> bool" where
  "is_space c = (let n = (of_char c :: nat)
     in (9 \<le> n \<and> n \<le> 13) \<or> (28 \<le> n \<and> n \<le> 32) \<or> n = 133 \<or> n = 160)"

definition strip :: "string \<Rightarrow> string" where
  "strip s = rev (dropWhile is_space (rev (dropWhile is_space s)))"

text \<open>Decimal text of an integer, as \<^verbatim>\<open>str\<close> prints it.\<close>

definition digit_char :: "nat \<Rightarrow> char" where
  "digit_char d = (''0123456789'' ! d)"

function str_nat :: "nat \<Rightarrow> string" where
  "str_nat n = (if n < 10 then [digit_char n] else str_nat (n div 10) @ [digit_char (n mod 10)])"
  by pat_completeness auto
termination
  by (relation "measure id") auto

declare str_nat.simps [simp del]

definition str_int :: "int \<Rightarrow> string" where
  "str_int i = (if i < 0 then CHR ''-'' # str_nat (nat (- i)) else str_nat (nat i))"

text \<open>A name between single quotes, as the messages print it.\<close>

definition quoted :: "string \<Rightarrow> string" where
  "quoted s = [CHR 0x27] @ s @ [CHR 0x27]"

text \<open>An \<^verbatim>\<open>Optional[str]\<close> inside an f-string: \<^verbatim>\<open>None\<close> prints as the word None.\<close>

fun fmt_opt :: "string option \<Rightarrow> string" where
  "fmt_opt None = ''None''"
| "fmt_opt (Some s) = s"

subsection \<open>Equality, hashing, printing\<close>

text \<open>
  \<^verbatim>\<open>a == b\<close> on decoded values: \<^verbatim>\<open>True\<close> and \<^verbatim>\<open>False\<close> equal the integers 1 and 0, lists are
  equal element by element, dictionaries when they have the same keys with equal values.
\<close>

fun py_eq :: "json \<Rightarrow> json \<Rightarrow> bool" where
  "py_eq JNull JNull = True"
| "py_eq (JBool a) (JBool b) = (a = b)"
| "py_eq (JBool a) (JInt n) = (n = (if a then 1 else 0))"
| "py_eq (JInt n) (JBool a) = (n = (if a then 1 else 0))"
| "py_eq (JInt m) (JInt n) = (m = n)"
| "py_eq (JStr s) (JStr t) = (s = t)"
| "py_eq (JList xs) (JList ys) = list_all2 py_eq xs ys"
| "py_eq (JObj kvs) (JObj kws) =
     (length kvs = length kws \<and>
      list_all (\<lambda>(k, v). case map_of kws k of None \<Rightarrow> False | Some w \<Rightarrow> py_eq v w) kvs)"
| "py_eq a b = False"

text \<open>Lists and dictionaries cannot be hashed: putting one in a set, or asking a set for it, raises.\<close>

fun hashable :: "json \<Rightarrow> bool" where
  "hashable (JList xs) = False"
| "hashable (JObj kvs) = False"
| "hashable j = True"

text \<open>A Python set of hashable values, kept in the order of insertion.\<close>

definition set_member :: "json \<Rightarrow> json list \<Rightarrow> bool" where
  "set_member x s = list_ex (py_eq x) s"

definition set_add :: "json \<Rightarrow> json list \<Rightarrow> json list" where
  "set_add x s = (if set_member x s then s else s @ [x])"

text \<open>
  \<^verbatim>\<open>repr\<close> of a string: single quotes unless the text has a single quote and no double quote;
  the quote and the backslash are escaped, tab, line feed and carriage return are written
  with their letters, the other non-printable code points in hexadecimal.
\<close>

definition hex_char :: "nat \<Rightarrow> char" where
  "hex_char d = (''0123456789abcdef'' ! d)"

definition printable :: "char \<Rightarrow> bool" where
  "printable c = (let n = (of_char c :: nat)
     in (32 \<le> n \<and> n < 127) \<or> (161 \<le> n \<and> n \<noteq> 173))"

definition repr_char :: "char \<Rightarrow> char \<Rightarrow> string" where
  "repr_char q c =
     (if c = q \<or> c = CHR 0x5C then [CHR 0x5C, c]
      else if c = CHR 0x09 then [CHR 0x5C, CHR ''t'']
      else if c = CHR 0x0A then [CHR 0x5C, CHR ''n'']
      else if c = CHR 0x0D then [CHR 0x5C, CHR ''r'']
      else if printable c then [c]
      else [CHR 0x5C, CHR ''x'', hex_char ((of_char c :: nat) div 16), hex_char ((of_char c :: nat) mod 16)])"

definition repr_str :: "string \<Rightarrow> string" where
  "repr_str s =
     (let q = (if CHR 0x27 \<in> set s \<and> CHR 0x22 \<notin> set s then CHR 0x22 else CHR 0x27)
      in [q] @ concat (map (repr_char q) s) @ [q])"

fun join_comma :: "string list \<Rightarrow> string" where
  "join_comma [] = []"
| "join_comma [s] = s"
| "join_comma (s # t # ss) = s @ '', '' @ join_comma (t # ss)"

fun py_repr :: "json \<Rightarrow> string" where
  "py_repr JNull = ''None''"
| "py_repr (JBool b) = (if b then ''True'' else ''False'')"
| "py_repr (JInt i) = str_int i"
| "py_repr (JStr s) = repr_str s"
| "py_repr (JList xs) = ''['' @ join_comma (map py_repr xs) @ '']''"
| "py_repr (JObj kvs) =
     ''{'' @ join_comma (map (\<lambda>(k, v). repr_str k @ '': '' @ py_repr v) kvs) @ ''}''"

text \<open>\<^verbatim>\<open>str(x)\<close>, which an f-string applies to the value it prints.\<close>

fun py_str :: "json \<Rightarrow> string" where
  "py_str (JStr s) = s"
| "py_str j = py_repr j"

subsection \<open>Raising\<close>

definition res_bind :: "exn + 'a \<Rightarrow> ('a \<Rightarrow> exn + 'b) \<Rightarrow> exn + 'b" where
  "res_bind r f = (case r of Inl e \<Rightarrow> Inl e | Inr a \<Rightarrow> f a)"

text \<open>
  A dictionary display whose values are read with \<^verbatim>\<open>src.get(key, default)\<close>: the entries are
  (key written, key read, default).
\<close>

fun pick :: "json \<Rightarrow> (string \<times> string \<times> json) list \<Rightarrow> exn + (string \<times> json) list" where
  "pick src [] = Inr []"
| "pick src ((out, key, d) # fs) =
     res_bind (py_get src key d) (\<lambda>v. res_bind (pick src fs) (\<lambda>rest. Inr ((out, v) # rest)))"

text \<open>\<^verbatim>\<open>d[key] = v\<close> on an insertion-ordered dictionary.\<close>

fun dict_set :: "(string \<times> json) list \<Rightarrow> string \<Rightarrow> json \<Rightarrow> (string \<times> json) list" where
  "dict_set [] k v = [(k, v)]"
| "dict_set ((k', v') # kvs) k v = (if k' = k then (k, v) # kvs else (k', v') # dict_set kvs k v)"

section \<open>The remote platform\<close>

text \<open>
  One HTTP exchange. A request is what \<^verbatim>\<open>client.get\<close> or \<^verbatim>\<open>client.post\<close> is called with. Its
  outcome is a response (status code, body text, and what \<^verbatim>\<open>response.json()\<close> gives: the
  decoded value, or the message of the exception it raises), an \<^verbatim>\<open>httpx.RequestError\<close>, or
  any other exception, each with its message.
\<close>

type_synonym headers = "(string \<times> string option) list"

datatype request =
    Get string headers
  | Post string headers "json option"

datatype outcome =
    Response int string "string + json"
  | RequestError string
  | OtherException string

text \<open>
  The remote answers a request in the light of all requests sent before it. The requests
  sent so far are the only state an operation has.
\<close>

type_synonym server = "request list \<Rightarrow> request \<Rightarrow> outcome"

type_synonym 'a io = "request list \<Rightarrow> (exn + 'a) \<times> request list"

definition io_return :: "'a \<Rightarrow> 'a io" where
  "io_return a h = (Inr a, h)"

definition io_lift :: "exn + 'a \<Rightarrow> 'a io" where
  "io_lift r h = (r, h)"

definition io_bind :: "'a io \<Rightarrow> ('a \<Rightarrow> 'b io) \<Rightarrow> 'b io" where
  "io_bind m f h = (case m h of (Inl e, h') \<Rightarrow> (Inl e, h') | (Inr a, h') \<Rightarrow> f a h')"

section \<open>base\_tools.py: BaseOctopusTools\<close>

record OctopusDeployConfig =
  cfg_base_url :: "string option"
  cfg_api_key :: "string option"

record tools =
  base_url :: string
  api_key :: "string option"

text \<open>\<^verbatim>\<open>__init__\<close>: \<^verbatim>\<open>rstrip\<close> on a base URL that is \<^verbatim>\<open>None\<close> raises.\<close>

definition init :: "OctopusDeployConfig \<Rightarrow> exn + tools" where
  "init cfg = (case cfg_base_url cfg of
      None \<Rightarrow> Inl AttributeError
    | Some u \<Rightarrow> Inr \<lparr>base_url = rstrip_slash u, api_key = cfg_api_key cfg\<rparr>)"

definition get_headers :: "tools \<Rightarrow> headers" where
  "get_headers self =
     [(''X-Octopus-ApiKey'', api_key self), (''Content-Type'', Some ''application/json'')]"

definition error_value :: "string \<Rightarrow> json" where
  "error_value msg = JObj [(''error'', JStr msg)]"

text \<open>The request that \<^verbatim>\<open>_make_request\<close> sends once the credentials are there.\<close>

definition build_request :: "tools \<Rightarrow> string \<Rightarrow> string \<Rightarrow> json option \<Rightarrow> request" where
  "build_request self endpoint method data =
     (let url = base_url self @ ''/'' @ lstrip_slash endpoint;
          hs = get_headers self
      in if upper_is_POST method then Post url hs data else Get url hs)"

text \<open>The value returned for each outcome of the exchange (the \<^verbatim>\<open>try\<close> block and its handlers).\<close>

fun handle_outcome :: "outcome \<Rightarrow> json" where
  "handle_outcome (Response status body_text decoded) =
     (if status = 200 \<or> status = 201 then
        (case decoded of
           Inr j \<Rightarrow> j
         | Inl msg \<Rightarrow> error_value (''Unexpected error: '' @ msg))
      else if status = 401 then
        error_value ''Authentication failed. Please check your API key.''
      else if status = 404 then
        error_value ''Resource not found.''
      else
        error_value (''API request failed with status '' @ str_int status @ '': '' @ body_text))"
| "handle_outcome (RequestError msg) =
     error_value (''Failed to connect to Octopus Deploy API: '' @ msg)"
| "handle_outcome (OtherException msg) =
     error_value (''Unexpected error: '' @ msg)"

definition make_request :: "tools \<Rightarrow> server \<Rightarrow> string \<Rightarrow> string \<Rightarrow> json option \<Rightarrow> json io" where
  "make_request self srv endpoint method data h =
     (if base_url self = [] \<or> \<not> truthy_str (api_key self) then
        (Inr (error_value ''Missing Octopus Deploy credentials. Please configure OCTOPUS_URL and OCTOPUS_API_KEY environment variables.''), h)
      else
        (let req = build_request self endpoint method data
         in (Inr (handle_outcome (srv h req)), h @ [req])))"

text \<open>
  The collection inside a response that may be a bare list or an object with an item list:
  \<^verbatim>\<open>r if isinstance(r, list) else r.get("Items", [])\<close>.
\<close>

definition items_either :: "json \<Rightarrow> exn + json" where
  "items_either r = (if is_list r then Inr r else py_get r ''Items'' (JList []))"

text \<open>The collection read from the item list field alone: \<^verbatim>\<open>r.get("Items", [])\<close>.\<close>

definition items_field :: "json \<Rightarrow> exn + json" where
  "items_field r = py_get r ''Items'' (JList [])"

text \<open>
  \<^verbatim>\<open>next((x for x in items if x.get('Name', '').lower() == name.lower()), None)\<close>: the
  generator is consumed up to the first match only.
\<close>

fun first_named :: "json list \<Rightarrow> string \<Rightarrow> exn + json" where
  "first_named [] name = Inr JNull"
| "first_named (x # xs) name =
     res_bind (py_get x ''Name'' (JStr [])) (\<lambda>v.
     res_bind (py_lower v) (\<lambda>s.
       if s = lower name then Inr x else first_named xs name))"

definition get_by_name :: "tools \<Rightarrow> server \<Rightarrow> string \<Rightarrow> string \<Rightarrow> json io" where
  "get_by_name self srv uri name =
     io_bind (make_request self srv uri ''GET'' None) (\<lambda>resources.
     io_lift (
       res_bind (py_in ''error'' resources) (\<lambda>failed.
         if failed then Inr JNull
         else
           res_bind (items_either resources) (\<lambda>items.
           res_bind (py_iter items) (\<lambda>xs.
             first_named xs name)))))"

text \<open>A parameter with a default value: \<^verbatim>\<open>None\<close> stands for an argument that was not passed.\<close>

fun with_default :: "string \<Rightarrow> string option \<Rightarrow> string" where
  "with_default d None = d"
| "with_default d (Some s) = s"

text \<open>
  \<^verbatim>\<open>_get_space\<close>. The log line of a space that was found prints \<^verbatim>\<open>space['Id']\<close>, which raises
  when the key is missing.
\<close>

definition get_space :: "tools \<Rightarrow> server \<Rightarrow> string option \<Rightarrow> json io" where
  "get_space self srv space_name_arg =
     (let space_name = with_default ''Default'' space_name_arg
      in io_bind (get_by_name self srv ''spaces/all'' space_name) (\<lambda>space.
           if \<not> truthy space then io_return JNull
           else io_bind (io_lift (subscript space ''Id'')) (\<lambda>logged.
                io_return space)))"

definition get_project_releases :: "tools \<Rightarrow> server \<Rightarrow> json \<Rightarrow> json \<Rightarrow> json io" where
  "get_project_releases self srv space_id project_id =
     make_request self srv
       (py_str space_id @ ''/projects/'' @ py_str project_id @ ''/releases'') ''GET'' None"

text \<open>\<^verbatim>\<open>next((x for x in releases if x.get('Version') == version), None)\<close>.\<close>

fun first_version :: "json list \<Rightarrow> string \<Rightarrow> exn + json" where
  "first_version [] version = Inr JNull"
| "first_version (x # xs) version =
     res_bind (py_get x ''Version'' JNull) (\<lambda>v.
       if py_eq v (JStr version) then Inr x else first_version xs version)"

definition find_release :: "json \<Rightarrow> string option \<Rightarrow> exn + json" where
  "find_release releases version =
     (if \<not> truthy releases then Inr JNull
      else if truthy_str version then
        (case version of
           Some v \<Rightarrow> res_bind (py_iter releases) (\<lambda>xs. first_version xs v)
         | None \<Rightarrow> index0 releases)
      else index0 releases)"

text \<open>
  \<^verbatim>\<open>_json_response\<close> and \<^verbatim>\<open>_error_response\<close>. Every tool returns \<^verbatim>\<open>json.dumps\<close> of its payload;
  the text it prints is not modelled, a tool's result here is the payload itself.
\<close>

definition json_response :: "json \<Rightarrow> json" where
  "json_response data = data"

definition error_response :: "string \<Rightarrow> json" where
  "error_response message = json_response (error_value message)"

text \<open>The first loop of \<^verbatim>\<open>_get_active_environments\<close>: the set of environment ids.\<close>

fun collect_env_ids :: "json list \<Rightarrow> json list \<Rightarrow> exn + json list" where
  "collect_env_ids [] ids = Inr ids"
| "collect_env_ids (deployment # ds) ids =
     res_bind (py_get deployment ''EnvironmentId'' JNull) (\<lambda>env_id.
       if truthy env_id then
         (if hashable env_id then collect_env_ids ds (set_add env_id ids) else Inl TypeError)
       else collect_env_ids ds ids)"

text \<open>Its second loop: the environments whose id is in the set.\<close>

fun filter_active :: "json list \<Rightarrow> json list \<Rightarrow> exn + json list" where
  "filter_active [] ids = Inr []"
| "filter_active (env # envs) ids =
     res_bind (py_get env ''Id'' JNull) (\<lambda>env_id.
       if \<not> hashable env_id then Inl TypeError
       else if set_member env_id ids then
         res_bind (py_get env ''Name'' JNull) (\<lambda>env_name.
         res_bind (filter_active envs ids) (\<lambda>rest.
           Inr (JObj [(''id'', env_id), (''name'', env_name)] # rest)))
       else filter_active envs ids)"

text \<open>
  \<^verbatim>\<open>_get_active_environments\<close>. The warnings print \<^verbatim>\<open>response.get('error', ...)\<close>, which raises on a
  response that is not a dictionary.
\<close>

definition get_active_environments :: "tools \<Rightarrow> server \<Rightarrow> json \<Rightarrow> json \<Rightarrow> json list io" where
  "get_active_environments self srv space_id project_id =
     io_bind (make_request self srv
                (py_str space_id @ ''/projects/'' @ py_str project_id @ ''/releases'') ''GET'' None)
       (\<lambda>releases_response.
     io_bind (io_lift (py_in ''error'' releases_response)) (\<lambda>failed.
       if failed then
         io_bind (io_lift (py_get releases_response ''error'' (JStr ''Unknown error''))) (\<lambda>logged.
         io_return [])
       else
     io_bind (io_lift (items_field releases_response)) (\<lambda>releases.
       if \<not> truthy releases then io_return []
       else
     io_bind (io_lift (index0 releases)) (\<lambda>latest_release.
     io_bind (io_lift (subscript latest_release ''Id'')) (\<lambda>release_id.
     io_bind (make_request self srv
                (py_str space_id @ ''/releases/'' @ py_str release_id @ ''/deployments'') ''GET'' None)
       (\<lambda>deployments_response.
     io_bind (io_lift (py_in ''error'' deployments_response)) (\<lambda>failed.
       if failed then
         io_bind (io_lift (py_get deployments_response ''error'' (JStr ''Unknown error''))) (\<lambda>logged.
         io_return [])
       else
     io_bind (io_lift (items_field deployments_response)) (\<lambda>deployments.
       if \<not> truthy deployments then
         io_bind (io_lift (py_get latest_release ''Version'' JNull)) (\<lambda>logged.
         io_return [])
       else
     io_bind (io_lift (res_bind (py_iter deployments) (\<lambda>ds. collect_env_ids ds []))) (\<lambda>env_ids.
     io_bind (make_request self srv (py_str space_id @ ''/environments/all'') ''GET'' None)
       (\<lambda>environments_response.
     io_bind (io_lift (py_in ''error'' environments_response)) (\<lambda>failed.
       if failed then
         io_bind (io_lift (py_get environments_response ''error'' (JStr ''Unknown error''))) (\<lambda>logged.
         io_return [])
       else
     io_lift (
       res_bind (items_either environments_response) (\<lambda>all_environments.
       res_bind (py_iter all_environments) (\<lambda>envs.
         filter_active envs env_ids))))))))))))))"

section \<open>project\_tools.py: ProjectTools\<close>

definition no_active_environment :: string where
  "no_active_environment = ''There is no active environment with a release for this project''"

definition get_project_details :: "tools \<Rightarrow> server \<Rightarrow> string \<Rightarrow> string option \<Rightarrow> json io" where
  "get_project_details self srv project_name space_name_arg =
     (let space_name = with_default ''Default'' space_name_arg
      in
      if project_name = [] then io_return (json_response (error_value ''project_name is required''))
      else
      io_bind (get_space self srv (Some space_name)) (\<lambda>space.
        if \<not> truthy space then
          io_return (json_response (error_value (''Space '' @ quoted space_name @ '' not found'')))
        else
      io_bind (io_lift (subscript space ''Id'')) (\<lambda>space_id.
      io_bind (get_by_name self srv (py_str space_id @ ''/projects/all'') project_name) (\<lambda>project.
        if \<not> truthy project then
          io_return (json_response (error_value
            (''Project '' @ quoted project_name @ '' not found in space '' @ quoted space_name)))
        else
      io_bind (io_lift (subscript project ''Id'')) (\<lambda>project_id.
      io_bind (get_active_environments self srv space_id project_id) (\<lambda>environments.
      io_lift (
        res_bind (pick space [(''id'', ''Id'', JNull), (''name'', ''Name'', JNull)]) (\<lambda>space_out.
        res_bind (pick project
                   [(''id'', ''Id'', JNull),
                    (''name'', ''Name'', JNull),
                    (''description'', ''Description'', JStr []),
                    (''project_group_id'', ''ProjectGroupId'', JNull),
                    (''lifecycle_id'', ''LifecycleId'', JNull),
                    (''deployment_process_id'', ''DeploymentProcessId'', JNull),
                    (''variable_set_id'', ''VariableSetId'', JNull)]) (\<lambda>project_out.
          Inr (json_response (JObj
            [(''success'', JBool True),
             (''space'', JObj space_out),
             (''project'', JObj project_out),
             (''active_environments'',
                if environments = [] then JStr no_active_environment else JList environments)])))))))))))"

section \<open>release\_tools.py: ReleaseTools\<close>

definition space_fields :: "(string \<times> string \<times> json) list" where
  "space_fields = [(''id'', ''Id'', JNull), (''name'', ''Name'', JNull)]"

definition release_fields :: "(string \<times> string \<times> json) list" where
  "release_fields = [(''id'', ''Id'', JNull), (''version'', ''Version'', JNull)]"


text \<open>
  The loop of \<^verbatim>\<open>create_release\<close> over the package requirements of the template. It ends with
  the selected packages (\<open>Inr\<close>), or leaves the tool at once with a payload (\<open>Inl\<close>).
\<close>

fun select_packages ::
  "tools \<Rightarrow> server \<Rightarrow> json \<Rightarrow> json list \<Rightarrow> json list \<Rightarrow> (json + json list) io" where
  "select_packages self srv space_id [] selected_packages = io_return (Inr selected_packages)"
| "select_packages self srv space_id (package # rest) selected_packages =
     io_bind (io_lift (subscript package ''FeedId'')) (\<lambda>feed_id.
     io_bind (io_lift (subscript package ''PackageId'')) (\<lambda>package_id.
     io_bind (make_request self srv
                (py_str space_id @ ''/feeds/'' @ py_str feed_id
                   @ ''/packages/versions?packageId='' @ py_str package_id @ ''&take=1'')
                ''GET'' None) (\<lambda>package_response.
     io_bind (io_lift (py_in ''error'' package_response)) (\<lambda>failed.
       if failed then io_return (Inl (json_response package_response))
       else
     io_bind (io_lift (items_either package_response)) (\<lambda>packages.
       if truthy packages then
         io_bind (io_lift (index0 packages)) (\<lambda>selected_package.
         io_bind (io_lift (subscript package ''ActionName'')) (\<lambda>action_name.
         io_bind (io_lift (subscript package ''PackageReferenceName'')) (\<lambda>reference_name.
         io_bind (io_lift (subscript selected_package ''Version'')) (\<lambda>package_version.
           select_packages self srv space_id rest
             (selected_packages @
                [JObj [(''ActionName'', action_name),
                       (''PackageReferenceName'', reference_name),
                       (''Version'', package_version)]])))))
       else select_packages self srv space_id rest selected_packages)))))"

definition create_release ::
  "tools \<Rightarrow> server \<Rightarrow> string \<Rightarrow> string \<Rightarrow> string option \<Rightarrow> string option \<Rightarrow> json io" where
  "create_release self srv project_name version channel_name_arg space_name_arg =
     (let channel_name = with_default ''Default'' channel_name_arg;
          space_name = with_default ''Default'' space_name_arg
      in
      if project_name = [] \<or> version = [] then
        io_return (error_response ''project_name and version are required'')
      else
      io_bind (get_space self srv (Some space_name)) (\<lambda>space.
        if \<not> truthy space then
          io_return (json_response (error_value (''Space '' @ quoted space_name @ '' not found'')))
        else
      io_bind (io_lift (subscript space ''Id'')) (\<lambda>space_id.
      io_bind (get_by_name self srv (py_str space_id @ ''/projects/all'') project_name) (\<lambda>project.
        if \<not> truthy project then
          io_return (error_response
            (''Project '' @ quoted project_name @ '' not found in '' @ space_name @ '' space''))
        else
      io_bind (io_lift (subscript project ''Id'')) (\<lambda>project_id.
      io_bind (get_by_name self srv
                 (py_str space_id @ ''/projects/'' @ py_str project_id @ ''/channels'') channel_name)
        (\<lambda>channel.
        if \<not> truthy channel then
          io_return (error_response
            (''Channel '' @ quoted channel_name @ '' not found for project '' @ quoted project_name))
        else
      io_bind (io_lift (subscript channel ''Id'')) (\<lambda>channel_id.
      io_bind (make_request self srv
                 (py_str space_id @ ''/deploymentprocesses/deploymentprocess-'' @ py_str project_id
                    @ ''/template?channel='' @ py_str channel_id) ''GET'' None) (\<lambda>template_response.
      io_bind (io_lift (py_in ''error'' template_response)) (\<lambda>failed.
        if failed then io_return (json_response template_response)
        else
      io_bind (io_lift (res_bind (py_get template_response ''Packages'' (JList [])) py_iter))
        (\<lambda>template_packages.
      io_bind (select_packages self srv space_id template_packages []) (\<lambda>looped.
        case looped of
          Inl payload \<Rightarrow> io_return payload
        | Inr selected_packages \<Rightarrow>
      io_bind (make_request self srv (py_str space_id @ ''/releases'') ''POST''
                 (Some (JObj [(''ChannelId'', channel_id),
                              (''ProjectId'', project_id),
                              (''Version'', JStr version),
                              (''SelectedPackages'', JList selected_packages)]))) (\<lambda>release_response.
      io_bind (io_lift (py_in ''error'' release_response)) (\<lambda>failed.
        if failed then io_return (json_response release_response)
        else
      io_lift (
        res_bind (pick space space_fields) (\<lambda>space_out.
        res_bind (pick project space_fields) (\<lambda>project_out.
        res_bind (pick channel space_fields) (\<lambda>channel_out.
        res_bind (pick release_response
                   [(''id'', ''Id'', JNull),
                    (''version'', ''Version'', JNull),
                    (''assembled'', ''Assembled'', JNull),
                    (''channel_id'', ''ChannelId'', JNull),
                    (''project_id'', ''ProjectId'', JNull),
                    (''selected_packages'', ''SelectedPackages'', JList [])]) (\<lambda>release_out.
          Inr (json_response (JObj
            [(''success'', JBool True),
             (''message'', JStr (''Release '' @ quoted version
                @ '' created successfully for project '' @ quoted project_name)),
             (''space'', JObj space_out),
             (''project'', JObj project_out),
             (''channel'', JObj channel_out),
             (''release'', JObj release_out)]))))))))))))))))))))"

section \<open>deployment\_tools.py: DeploymentTools\<close>

definition initiated_message :: string where
  "initiated_message = ''Deployment has been initiated successfully. This does not guarantee the deployment completed successfully.''"

definition next_step_message :: string where
  "next_step_message = ''Use the check_deployment_status tool to monitor the actual deployment progress and final status.''"

definition deployment_fields :: "(string \<times> string \<times> json) list" where
  "deployment_fields =
     [(''id'', ''Id'', JNull),
      (''name'', ''Name'', JNull),
      (''state'', ''State'', JNull),
      (''created'', ''Created'', JNull),
      (''task_id'', ''TaskId'', JNull)]"

definition deploy_release ::
  "tools \<Rightarrow> server \<Rightarrow> string \<Rightarrow> string \<Rightarrow> string option \<Rightarrow> string option \<Rightarrow> json io" where
  "deploy_release self srv project_name environment_name release_version space_name_arg =
     (let space_name = with_default ''Default'' space_name_arg
      in
      if project_name = [] \<or> environment_name = [] then
        io_return (error_response ''project_name and environment_name are required'')
      else
      io_bind (get_space self srv (Some space_name)) (\<lambda>space.
        if \<not> truthy space then
          io_return (json_response (error_value (''Space '' @ quoted space_name @ '' not found'')))
        else
      io_bind (io_lift (subscript space ''Id'')) (\<lambda>space_id.
      io_bind (get_by_name self srv (py_str space_id @ ''/projects/all'') project_name) (\<lambda>project.
        if \<not> truthy project then
          io_return (error_response
            (''Project '' @ quoted project_name @ '' not found in '' @ space_name @ '' space''))
        else
      io_bind (io_lift (subscript project ''Id'')) (\<lambda>project_id.
      io_bind (get_project_releases self srv space_id project_id) (\<lambda>releases_response.
      io_bind (io_lift (py_in ''error'' releases_response)) (\<lambda>failed.
        if failed then
          io_bind (io_lift (py_get releases_response ''error'' JNull)) (\<lambda>logged.
          io_return (json_response releases_response))
        else
      io_bind (io_lift (items_field releases_response)) (\<lambda>releases.
        if \<not> truthy releases then
          io_return (error_response (''No releases found for project '' @ quoted project_name))
        else
      io_bind (io_lift (py_len releases)) (\<lambda>logged.
      io_bind (io_lift (find_release releases release_version)) (\<lambda>release.
        if \<not> truthy release then
          io_return (error_response
            (''Release version '' @ quoted (fmt_opt release_version)
               @ '' not found for project '' @ quoted project_name))
        else
      io_bind (io_lift (pick release release_fields)) (\<lambda>release_out.
      io_bind (get_by_name self srv (py_str space_id @ ''/environments/all'') environment_name)
        (\<lambda>environment.
        if \<not> truthy environment then
          io_return (error_response
            (''Environment '' @ quoted environment_name @ '' not found in '' @ space_name @ '' space''))
        else
      io_bind (io_lift (pick environment space_fields)) (\<lambda>environment_out.
      io_bind (io_lift (pick release [(''ReleaseId'', ''Id'', JNull)])) (\<lambda>release_ref.
      io_bind (io_lift (pick environment [(''EnvironmentId'', ''Id'', JNull)])) (\<lambda>environment_ref.
      io_bind (make_request self srv (py_str space_id @ ''/deployments'') ''POST''
                 (Some (JObj (release_ref @ environment_ref)))) (\<lambda>deployment_response.
      io_bind (io_lift (py_in ''error'' deployment_response)) (\<lambda>failed.
      io_bind (io_lift (if failed then py_get deployment_response ''error'' JNull else Inr JNull))
        (\<lambda>logged.
      io_lift (
        res_bind (pick space space_fields) (\<lambda>space_out.
        res_bind (pick project space_fields) (\<lambda>project_out.
        res_bind (pick deployment_response deployment_fields) (\<lambda>deployment_out.
          Inr (json_response (JObj
            [(''success'', JBool True),
             (''message'', JStr initiated_message),
             (''next_step'', JStr next_step_message),
             (''space'', JObj space_out),
             (''project'', JObj project_out),
             (''release'', JObj release_out),
             (''environment'', JObj environment_out),
             (''deployment'', JObj deployment_out)]))))))))))))))))))))))))"

text \<open>\<^verbatim>\<open>_get_environments_to_check\<close>.\<close>

definition get_environments_to_check :: "tools \<Rightarrow> server \<Rightarrow> json \<Rightarrow> string option \<Rightarrow> json io" where
  "get_environments_to_check self srv space_id environment_name =
     (if truthy_str environment_name then
        io_bind (get_by_name self srv (py_str space_id @ ''/environments/all'')
                   (fmt_opt environment_name)) (\<lambda>environment.
        io_return (if truthy environment then JList [environment] else JList []))
      else
        io_bind (make_request self srv (py_str space_id @ ''/environments/all'') ''GET'' None)
          (\<lambda>environments_response.
        io_lift (
          res_bind (py_in ''error'' environments_response) (\<lambda>failed.
            if failed then Inr (JList [])
            else items_either environments_response))))"

text \<open>\<^verbatim>\<open>_get_deployment_status\<close>.\<close>

definition get_deployment_status :: "tools \<Rightarrow> server \<Rightarrow> json \<Rightarrow> json io" where
  "get_deployment_status self srv deployment =
     io_bind (io_lift (py_get deployment ''TaskId'' JNull)) (\<lambda>task_id.
     io_bind (io_lift (py_get deployment ''Id'' JNull)) (\<lambda>deployment_id.
     io_bind (io_lift (py_get deployment ''Created'' JNull)) (\<lambda>created.
     io_bind (io_lift (py_get deployment ''DeployedBy'' JNull)) (\<lambda>deployed_by.
     io_bind (io_lift (py_get deployment ''Comments'' (JStr []))) (\<lambda>comments.
       let deployment_status =
             [(''deployment_id'', deployment_id),
              (''state'', JNull),
              (''completed'', JBool False),
              (''started'', created),
              (''completed_time'', JNull),
              (''duration'', JNull),
              (''task_id'', task_id),
              (''deployed_by'', deployed_by),
              (''comments'', comments)]
       in
       if truthy task_id then
         io_bind (make_request self srv (''tasks/'' @ py_str task_id) ''GET'' None) (\<lambda>task_response.
         io_bind (io_lift (py_in ''error'' task_response)) (\<lambda>failed.
           if \<not> failed then
             io_lift (
               res_bind (py_get task_response ''State'' JNull) (\<lambda>state.
               res_bind (py_get task_response ''IsCompleted'' (JBool False)) (\<lambda>completed.
               res_bind (py_get task_response ''StartTime'' JNull) (\<lambda>started.
               res_bind (py_get task_response ''CompletedTime'' JNull) (\<lambda>completed_time.
               res_bind (py_get task_response ''Duration'' JNull) (\<lambda>duration.
                 let updated =
                       dict_set (dict_set (dict_set (dict_set (dict_set deployment_status
                         ''state'' state)
                         ''completed'' completed)
                         ''started'' started)
                         ''completed_time'' completed_time)
                         ''duration'' duration
                 in
                 res_bind (py_get task_response ''HasWarningsOrErrors'' (JBool False)) (\<lambda>flagged.
                   if truthy flagged then
                     res_bind (py_get task_response ''ErrorMessage'' (JStr [])) (\<lambda>error_message.
                       Inr (JObj (dict_set updated ''error_message'' error_message)))
                   else Inr (JObj updated))))))))
           else io_return (JObj deployment_status)))
       else io_return (JObj deployment_status))))))"

text \<open>\<^verbatim>\<open>[d for d in deployments if d.get("EnvironmentId") == env_id]\<close>.\<close>

fun env_deployments_of :: "json list \<Rightarrow> json \<Rightarrow> exn + json list" where
  "env_deployments_of [] env_id = Inr []"
| "env_deployments_of (d # ds) env_id =
     res_bind (py_get d ''EnvironmentId'' JNull) (\<lambda>v.
     res_bind (env_deployments_of ds env_id) (\<lambda>rest.
       Inr (if py_eq v env_id then d # rest else rest)))"

text \<open>The loop of \<^verbatim>\<open>_build_environment_statuses\<close> over the environments.\<close>

fun environment_statuses_loop :: "tools \<Rightarrow> server \<Rightarrow> json list \<Rightarrow> json \<Rightarrow> json list io" where
  "environment_statuses_loop self srv [] deployments = io_return []"
| "environment_statuses_loop self srv (env # envs) deployments =
     io_bind (io_lift (py_get env ''Id'' JNull)) (\<lambda>env_id.
     io_bind (io_lift (py_get env ''Name'' JNull)) (\<lambda>env_name.
     io_bind (io_lift (res_bind (py_iter deployments) (\<lambda>ds. env_deployments_of ds env_id)))
       (\<lambda>env_deployments.
       case env_deployments of
         [] \<Rightarrow> environment_statuses_loop self srv envs deployments
       | latest_deployment # older \<Rightarrow>
           io_bind (get_deployment_status self srv latest_deployment) (\<lambda>deployment_status.
           io_bind (environment_statuses_loop self srv envs deployments) (\<lambda>rest.
           io_return
             (JObj [(''environment'', JObj [(''id'', env_id), (''name'', env_name)]),
                    (''deployment_status'', deployment_status)] # rest))))))"

definition build_environment_statuses :: "tools \<Rightarrow> server \<Rightarrow> json \<Rightarrow> json \<Rightarrow> json list io" where
  "build_environment_statuses self srv environments deployments =
     io_bind (io_lift (py_iter environments)) (\<lambda>envs.
     environment_statuses_loop self srv envs deployments)"

text \<open>An optional text parameter whose empty value stands for none: \<^verbatim>\<open>p.strip() if p else None\<close>.\<close>

definition normalize :: "string \<Rightarrow> string option" where
  "normalize p = (if p \<noteq> [] then Some (strip p) else None)"

definition check_deployment_status ::
  "tools \<Rightarrow> server \<Rightarrow> string \<Rightarrow> string option \<Rightarrow> string option \<Rightarrow> string option \<Rightarrow> json io" where
  "check_deployment_status self srv project_name release_version_arg environment_name_arg space_name_arg =
     (let space_name = with_default ''Default'' space_name_arg
      in
      if project_name = [] then io_return (error_response ''project_name is required'')
      else
      let release_version = normalize (with_default [] release_version_arg);
          environment_name = normalize (with_default [] environment_name_arg)
      in
      io_bind (get_space self srv (Some space_name)) (\<lambda>space.
        if \<not> truthy space then
          io_return (json_response (error_value (''Space '' @ quoted space_name @ '' not found'')))
        else
      io_bind (io_lift (subscript space ''Id'')) (\<lambda>space_id.
      io_bind (get_by_name self srv (py_str space_id @ ''/projects/all'') project_name) (\<lambda>project.
        if \<not> truthy project then
          io_return (error_response
            (''Project '' @ quoted project_name @ '' not found in '' @ space_name @ '' space''))
        else
      io_bind (io_lift (subscript project ''Id'')) (\<lambda>project_id.
      io_bind (get_project_releases self srv space_id project_id) (\<lambda>releases_response.
      io_bind (io_lift (py_in ''error'' releases_response)) (\<lambda>failed.
        if failed then io_return (json_response releases_response)
        else
      io_bind (io_lift (items_field releases_response)) (\<lambda>releases.
        if \<not> truthy releases then
          io_return (error_response (''No releases found for project '' @ quoted project_name))
        else
      io_bind (io_lift (find_release releases release_version)) (\<lambda>release.
        if \<not> truthy release then
          io_return (error_response
            (''Release version '' @ quoted (fmt_opt release_version)
               @ '' not found for project '' @ quoted project_name))
        else
      io_bind (get_environments_to_check self srv space_id environment_name)
        (\<lambda>environments_to_check.
        if \<not> truthy environments_to_check then
          io_return (error_response
            (''Environment '' @ quoted (fmt_opt environment_name)
               @ '' not found in '' @ space_name @ '' space''))
        else
      io_bind (io_lift (subscript release ''Id'')) (\<lambda>release_id.
      io_bind (make_request self srv
                 (py_str space_id @ ''/releases/'' @ py_str release_id @ ''/deployments'') ''GET'' None)
        (\<lambda>deployments_response.
      io_bind (io_lift (py_in ''error'' deployments_response)) (\<lambda>failed.
        if failed then io_return (json_response deployments_response)
        else
      io_bind (io_lift (items_field deployments_response)) (\<lambda>deployments.
      io_bind (build_environment_statuses self srv environments_to_check deployments)
        (\<lambda>environment_statuses.
      io_lift (
        res_bind (pick space space_fields) (\<lambda>space_out.
        res_bind (pick project space_fields) (\<lambda>project_out.
        res_bind (pick release release_fields) (\<lambda>release_out.
        res_bind (py_len environments_to_check) (\<lambda>total.
          Inr (json_response (JObj
            [(''success'', JBool True),
             (''space'', JObj space_out),
             (''project'', JObj project_out),
             (''release'', JObj release_out),
             (''deployment_statuses'', JList environment_statuses),
             (''summary'', JObj
                [(''total_environments_checked'', JInt (int total)),
                 (''deployed_count'', JInt (int (length environment_statuses))),
                 (''environments_with_deployments'', JInt (int (length environment_statuses)))])]))))))))))))))))))))))"

section \<open>Remote platforms to run the tools against\<close>

text \<open>A remote that answers the n-th request of a run with the n-th outcome of a script.\<close>

definition scripted :: "outcome list \<Rightarrow> server" where
  "scripted script h req =
     (if length h < length script then script ! length h
      else OtherException ''no more responses'')"

definition ok :: "json \<Rightarrow> outcome" where
  "ok j = Response 200 [] (Inr j)"

text \<open>The tools object built from \<^verbatim>\<open>mock_config\<close> of tests/conftest.py.\<close>

definition test_tools :: tools where
  "test_tools = \<lparr>base_url = ''https://test-octopus.octopus.app/api'', api_key = Some ''API-TEST123456789''\<rparr>"

section \<open>Vocabulary of the properties\<close>

text \<open>A tagged error value: a dictionary with the single key \<^verbatim>\<open>error\<close> and a message.\<close>

definition is_error_value :: "json \<Rightarrow> bool" where
  "is_error_value j = (\<exists>msg. j = error_value msg)"

text \<open>A release whose version field is the given text.\<close>

definition has_version :: "string \<Rightarrow> json \<Rightarrow> bool" where
  "has_version v x = (py_get x ''Version'' JNull = Inr (JStr v))"

text \<open>An entry whose name field equals the requested name when both are put in lower case.\<close>

definition name_matches :: "string \<Rightarrow> json \<Rightarrow> bool" where
  "name_matches name x =
     (case py_get x ''Name'' (JStr []) of Inr (JStr s) \<Rightarrow> lower s = lower name | _ \<Rightarrow> False)"

text \<open>An entity of the data model as far as name resolution needs it: an object with a name.\<close>

definition named_entity :: "json \<Rightarrow> bool" where
  "named_entity x =
     (case x of
        JObj kvs \<Rightarrow> (case map_of kvs ''Name'' of Some (JStr s) \<Rightarrow> True | _ \<Rightarrow> False)
      | _ \<Rightarrow> False)"

text \<open>The field of an object as \<^verbatim>\<open>x.get(key)\<close> reads it.\<close>

definition field :: "json \<Rightarrow> string \<Rightarrow> json" where
  "field x k = (case py_get x k JNull of Inr v \<Rightarrow> v | Inl e \<Rightarrow> JNull)"

text \<open>What a status entry says about its environment: \<^verbatim>\<open>{"id": env_id, "name": env_name}\<close>.\<close>

definition env_ref :: "json \<Rightarrow> json" where
  "env_ref env = JObj [(''id'', field env ''Id''), (''name'', field env ''Name'')]"

text \<open>An environment that some deployment of the list targets.\<close>

definition deployed_in :: "json list \<Rightarrow> json \<Rightarrow> bool" where
  "deployed_in ds env = list_ex (\<lambda>d. py_eq (field d ''EnvironmentId'') (field env ''Id'')) ds"

text \<open>A payload that a tool built after all its steps went through: an object without the key \<^verbatim>\<open>error\<close>.\<close>

definition success_payload :: "json \<Rightarrow> bool" where
  "success_payload p = (is_obj p \<and> py_in ''error'' p = Inr False)"

text \<open>
  The first steps of the status check, from the requests sent so far to the release it
  selects: the space and the project are resolved by name, the releases of the project are
  fetched without error, and \<^verbatim>\<open>_find_release\<close> picks a release among them.
\<close>

definition selects_release ::
  "tools \<Rightarrow> server \<Rightarrow> string \<Rightarrow> string option \<Rightarrow> string option \<Rightarrow> request list
     \<Rightarrow> json \<Rightarrow> json \<Rightarrow> request list \<Rightarrow> bool" where
  "selects_release self srv project_name release_version_arg space_name_arg h
       space_id release h3 =
     (\<exists>space h1 project h2 project_id releases_response releases.
        get_space self srv (Some (with_default ''Default'' space_name_arg)) h = (Inr space, h1)
      \<and> subscript space ''Id'' = Inr space_id
      \<and> get_by_name self srv (py_str space_id @ ''/projects/all'') project_name h1
          = (Inr project, h2)
      \<and> subscript project ''Id'' = Inr project_id
      \<and> get_project_releases self srv space_id project_id h2 = (Inr releases_response, h3)
      \<and> items_field releases_response = Inr releases
      \<and> find_release releases (normalize (with_default [] release_version_arg)) = Inr release
      \<and> truthy release)"

section \<open>tests/conftest.py: the sample data of the test suite\<close>

definition sample_space_data :: json where
  "sample_space_data = JObj
     [(''Id'', JStr ''Spaces-1''),
      (''Name'', JStr ''Default''),
      (''Description'', JStr ''Default space'')]"

definition sample_project_data :: json where
  "sample_project_data = JObj
     [(''Id'', JStr ''Projects-1''),
      (''Name'', JStr ''TestProject''),
      (''Description'', JStr ''Test project description''),
      (''ProjectGroupId'', JStr ''ProjectGroups-1''),
      (''LifecycleId'', JStr ''Lifecycles-1''),
      (''DeploymentProcessId'', JStr ''deploymentprocess-Projects-1''),
      (''VariableSetId'', JStr ''variableset-Projects-1'')]"

definition sample_release_data :: json where
  "sample_release_data = JObj
     [(''Id'', JStr ''Releases-1''),
      (''Version'', JStr ''1.0.0''),
      (''ReleaseNotes'', JStr ''Test release''),
      (''Assembled'', JStr ''2024-01-01T10:00:00.000Z''),
      (''ChannelId'', JStr ''Channels-1''),
      (''ProjectId'', JStr ''Projects-1''),
      (''SelectedPackages'', JList [])]"

definition sample_environment_data :: json where
  "sample_environment_data = JObj
     [(''Id'', JStr ''Environments-1''),
      (''Name'', JStr ''Production''),
      (''Description'', JStr ''Production environment'')]"

definition sample_deployment_data :: json where
  "sample_deployment_data = JObj
     [(''Id'', JStr ''Deployments-1''),
      (''Name'', JStr ''Deploy TestProject release 1.0.0 to Production''),
      (''ReleaseId'', JStr ''Releases-1''),
      (''EnvironmentId'', JStr ''Environments-1''),
      (''TaskId'', JStr ''ServerTasks-1''),
      (''State'', JStr ''Success''),
      (''Created'', JStr ''2024-01-01T10:00:00.000Z''),
      (''DeployedBy'', JStr ''test-user''),
      (''Comments'', JStr [])]"

definition sample_task_data :: json where
  "sample_task_data = JObj
     [(''Id'', JStr ''ServerTasks-1''),
      (''State'', JStr ''Success''),
      (''IsCompleted'', JBool True),
      (''StartTime'', JStr ''2024-01-01T10:00:00.000Z''),
      (''CompletedTime'', JStr ''2024-01-01T10:05:00.000Z''),
      (''Duration'', JStr ''00:05:00''),
      (''HasWarningsOrErrors'', JBool False),
      (''ErrorMessage'', JStr [])]"

text \<open>A second space whose name differs from the first in case only.\<close>

definition shouting_space_data :: json where
  "shouting_space_data = JObj [(''Id'', JStr ''Spaces-2''), (''Name'', JStr ''DEFAULT'')]"

text \<open>A third space, with a name of its own, to come first in a list of spaces.\<close>

definition archive_space_data :: json where
  "archive_space_data = JObj [(''Id'', JStr ''Spaces-3''), (''Name'', JStr ''Archive'')]"

text \<open>A later release of the sample project.\<close>

definition second_release_data :: json where
  "second_release_data = JObj [(''Id'', JStr ''Releases-2''), (''Version'', JStr ''2.0'')]"

section \<open>Remote platforms of the test suite\<close>

text \<open>The GET request that the tools of \<open>test_tools\<close> send to an endpoint.\<close>

definition get_request :: "string \<Rightarrow> request" where
  "get_request endpoint = build_request test_tools endpoint ''GET'' None"

text \<open>\<^verbatim>\<open>test_get_project_details_project_not_found\<close>: the space is there, it has no project.\<close>

definition remote_project_missing :: server where
  "remote_project_missing = scripted
     [ok (JList [sample_space_data]),
      ok (JList [])]"

text \<open>A project whose latest release has no deployment.\<close>

definition remote_no_deployments :: server where
  "remote_no_deployments = scripted
     [ok (JList [sample_space_data]),
      ok (JList [sample_project_data]),
      ok (JObj [(''Items'', JList [sample_release_data])]),
      ok (JObj [(''Items'', JList [])])]"

text \<open>\<^verbatim>\<open>test_get_project_details_with_active_environments\<close>.\<close>

definition remote_active_environment :: server where
  "remote_active_environment = scripted
     [ok (JList [sample_space_data]),
      ok (JList [sample_project_data]),
      ok (JObj [(''Items'', JList [JObj [(''Id'', JStr ''Releases-1''), (''Version'', JStr ''1.0.0'')]])]),
      ok (JObj [(''Items'', JList [JObj [(''EnvironmentId'', JStr ''Environments-1'')]])]),
      ok (JList [JObj [(''Id'', JStr ''Environments-1''), (''Name'', JStr ''Production'')]])]"

text \<open>\<^verbatim>\<open>test_deployment_api_failure_handling\<close>: everything resolves, the creation of the deployment fails.\<close>

definition remote_deployment_fails :: server where
  "remote_deployment_fails = scripted
     [ok (JList [sample_space_data]),
      ok (JList [sample_project_data]),
      ok (JObj [(''Items'', JList [sample_release_data])]),
      ok (JList [sample_environment_data]),
      Response 500 ''Internal Server Error'' (Inl ''no JSON'')]"

text \<open>
  Two environments, of which only Production has a deployment of the release; the task of
  that deployment is the sample task.
\<close>

definition staging_environment_data :: json where
  "staging_environment_data = JObj [(''Id'', JStr ''Environments-2''), (''Name'', JStr ''Staging'')]"

definition remote_one_of_two_deployed :: server where
  "remote_one_of_two_deployed = scripted
     [ok (JList [sample_space_data]),
      ok (JList [sample_project_data]),
      ok (JObj [(''Items'', JList [sample_release_data])]),
      ok (JList [sample_environment_data, staging_environment_data]),
      ok (JObj [(''Items'', JList [sample_deployment_data])]),
      ok sample_task_data]"

text \<open>\<^verbatim>\<open>test_check_deployment_status_no_deployments\<close>.\<close>

definition remote_nothing_deployed :: server where
  "remote_nothing_deployed = scripted
     [ok (JList [sample_space_data]),
      ok (JList [sample_project_data]),
      ok (JObj [(''Items'', JList [sample_release_data])]),
      ok (JList [sample_environment_data]),
      ok (JObj [(''Items'', JList [])])]"

text \<open>The space, the project and a release are there; the space has no environment.\<close>

definition remote_no_environments :: server where
  "remote_no_environments = scripted
     [ok (JList [sample_space_data]),
      ok (JList [sample_project_data]),
      ok (JObj [(''Items'', JList [sample_release_data])]),
      ok (JList [])]"

text \<open>
  The data of \<^verbatim>\<open>test_create_release_with_packages\<close>, with one more package requirement
  in the template, put first, for which the feed has no version.
\<close>

definition channel_data :: json where
  "channel_data = JObj [(''Id'', JStr ''Channels-1''), (''Name'', JStr ''Default'')]"

definition unavailable_package :: json where
  "unavailable_package = JObj
     [(''ActionName'', JStr ''Deploy Tools''),
      (''PackageReferenceName'', JStr ''MyTools''),
      (''FeedId'', JStr ''Feeds-1''),
      (''PackageId'', JStr ''Tools'')]"

definition available_package :: json where
  "available_package = JObj
     [(''ActionName'', JStr ''Deploy Package''),
      (''PackageReferenceName'', JStr ''MyPackage''),
      (''FeedId'', JStr ''Feeds-1''),
      (''PackageId'', JStr ''MyApp'')]"

definition selected_available_package :: json where
  "selected_available_package = JObj
     [(''ActionName'', JStr ''Deploy Package''),
      (''PackageReferenceName'', JStr ''MyPackage''),
      (''Version'', JStr ''1.0.5'')]"

definition created_release :: json where
  "created_release = JObj
     [(''Id'', JStr ''Releases-2''),
      (''Version'', JStr ''1.1.0''),
      (''Assembled'', JStr ''2024-01-01T11:00:00.000Z''),
      (''ChannelId'', JStr ''Channels-1''),
      (''ProjectId'', JStr ''Projects-1''),
      (''SelectedPackages'', JList [selected_available_package])]"

definition remote_one_feed_empty :: server where
  "remote_one_feed_empty = scripted
     [ok (JList [sample_space_data]),
      ok (JList [sample_project_data]),
      ok (JList [channel_data]),
      ok (JObj [(''Packages'', JList [unavailable_package, available_package])]),
      ok (JObj [(''Items'', JList [])]),
      ok (JList [JObj [(''Version'', JStr ''1.0.5'')]]),
      Response 201 [] (Inr created_release)]"

text \<open>The body of the request that creates a release.\<close>

definition release_data :: "json \<Rightarrow> json \<Rightarrow> string \<Rightarrow> json list \<Rightarrow> json" where
  "release_data channel_id project_id version selected_packages = JObj
     [(''ChannelId'', channel_id),
      (''ProjectId'', project_id),
      (''Version'', JStr version),
      (''SelectedPackages'', JList selected_packages)]"

text \<open>The endpoint that lists the versions of a package in a feed.\<close>

definition versions_endpoint :: "json \<Rightarrow> json \<Rightarrow> json \<Rightarrow> string" where
  "versions_endpoint space_id feed_id package_id =
     py_str space_id @ ''/feeds/'' @ py_str feed_id
       @ ''/packages/versions?packageId='' @ py_str package_id @ ''&take=1''"

text \<open>
  Two releases, of which the second is asked for; two environments, of which only
  Production has a deployment of that release; the task of the deployment is the sample task.
\<close>

definition remote_second_release_in_production :: server where
  "remote_second_release_in_production = scripted
     [ok (JList [sample_space_data]),
      ok (JList [sample_project_data]),
      ok (JObj [(''Items'', JList [sample_release_data, second_release_data])]),
      ok (JList [sample_environment_data, staging_environment_data]),
      ok (JObj [(''Items'', JList [sample_deployment_data])]),
      ok sample_task_data]"

section \<open>The two forms of a collection\<close>

text \<open>A list in its object form, \<^verbatim>\<open>{"Items": [...]}\<close>.\<close>

definition wrapped :: "json list \<Rightarrow> json" where
  "wrapped xs = JObj [(''Items'', JList xs)]"







section \<open>Properties\<close>

subsection \<open>Auxiliary facts\<close>

lemma py_eq_JStr [simp]: "py_eq v (JStr s) = (v = JStr s)"
  by (cases v) auto

lemma handle_outcome_shape:
  "is_error_value (handle_outcome oc) \<or>
   (\<exists>s t. oc = Response s t (Inr (handle_outcome oc)) \<and> (s = 200 \<or> s = 201))"
  by (cases oc) (auto simp: is_error_value_def split: sum.splits)

lemma truthy_str_iff: "truthy_str k \<longleftrightarrow> k \<noteq> None \<and> k \<noteq> Some []"
  by (cases k) auto

subsection \<open>The API request primitive\<close>

text \<open>
  C5. \<^verbatim>\<open>_make_request\<close> never raises: for every endpoint, method and body it returns a value,
  which is either the decoded JSON of a response with status 200 or 201 or a tagged error
  value. Without a base URL or an API key it returns the missing-credentials error and sends
  nothing. Otherwise it sends exactly one request, and returns the decoded body for 200 and
  201, the authentication error for 401, the not-found error for 404, the status with the
  body text for any other status, and the connect-failure message with the cause for a
  network error.
\<close>

theorem make_request_never_raises:
  "(\<exists>j. fst (make_request self srv endpoint method data h) = Inr j
        \<and> (is_error_value j
             \<or> (\<exists>s t. srv h (build_request self endpoint method data) = Response s t (Inr j)
                       \<and> (s = 200 \<or> s = 201))))
   \<and> (base_url self = [] \<or> api_key self = None \<or> api_key self = Some [] \<longrightarrow>
        make_request self srv endpoint method data h
          = (Inr (error_value ''Missing Octopus Deploy credentials. Please configure OCTOPUS_URL and OCTOPUS_API_KEY environment variables.''), h))
   \<and> (base_url self \<noteq> [] \<and> api_key self \<noteq> None \<and> api_key self \<noteq> Some [] \<longrightarrow>
        snd (make_request self srv endpoint method data h)
          = h @ [build_request self endpoint method data]
        \<and> (\<forall>s t j. srv h (build_request self endpoint method data) = Response s t (Inr j)
               \<and> (s = 200 \<or> s = 201)
             \<longrightarrow> fst (make_request self srv endpoint method data h) = Inr j)
        \<and> (\<forall>t d. srv h (build_request self endpoint method data) = Response 401 t d
             \<longrightarrow> fst (make_request self srv endpoint method data h)
                   = Inr (error_value ''Authentication failed. Please check your API key.''))
        \<and> (\<forall>t d. srv h (build_request self endpoint method data) = Response 404 t d
             \<longrightarrow> fst (make_request self srv endpoint method data h)
                   = Inr (error_value ''Resource not found.''))
        \<and> (\<forall>s t d. srv h (build_request self endpoint method data) = Response s t d
               \<and> s \<notin> {200, 201, 401, 404}
             \<longrightarrow> fst (make_request self srv endpoint method data h)
                   = Inr (error_value (''API request failed with status '' @ str_int s @ '': '' @ t)))
        \<and> (\<forall>msg. srv h (build_request self endpoint method data) = RequestError msg
             \<longrightarrow> fst (make_request self srv endpoint method data h)
                   = Inr (error_value (''Failed to connect to Octopus Deploy API: '' @ msg))))"
proof -
  have total: "\<exists>j. fst (make_request self srv endpoint method data h) = Inr j
        \<and> (is_error_value j
             \<or> (\<exists>s t. srv h (build_request self endpoint method data) = Response s t (Inr j)
                       \<and> (s = 200 \<or> s = 201)))"
    using handle_outcome_shape [of "srv h (build_request self endpoint method data)"]
    by (auto simp: make_request_def Let_def is_error_value_def)
  have missing: "base_url self = [] \<or> api_key self = None \<or> api_key self = Some [] \<longrightarrow>
        make_request self srv endpoint method data h
          = (Inr (error_value ''Missing Octopus Deploy credentials. Please configure OCTOPUS_URL and OCTOPUS_API_KEY environment variables.''), h)"
    by (auto simp: make_request_def truthy_str_iff)
  have sent: "base_url self \<noteq> [] \<and> api_key self \<noteq> None \<and> api_key self \<noteq> Some [] \<longrightarrow>
        make_request self srv endpoint method data h
          = (Inr (handle_outcome (srv h (build_request self endpoint method data))),
             h @ [build_request self endpoint method data])"
    by (auto simp: make_request_def Let_def truthy_str_iff)
  show ?thesis
    using total missing sent by auto
qed

text \<open>
  The theorem at work: with credentials, a 404 answer comes back as the not-found error
  after one request; without an API key the same call sends nothing.
\<close>

theorem make_request_never_raises_witness:
  "make_request test_tools (scripted [Response 404 ''gone'' (Inl ''no JSON'')])
       ''/spaces/all'' ''GET'' None []
     = (Inr (error_value ''Resource not found.''),
        [Get ''https://test-octopus.octopus.app/api/spaces/all''
           [(''X-Octopus-ApiKey'', Some ''API-TEST123456789''), (''Content-Type'', Some ''application/json'')]])
   \<and> make_request (test_tools\<lparr>api_key := None\<rparr>) (scripted [Response 404 ''gone'' (Inl ''no JSON'')])
       ''/spaces/all'' ''GET'' None []
     = (Inr (error_value ''Missing Octopus Deploy credentials. Please configure OCTOPUS_URL and OCTOPUS_API_KEY environment variables.''), [])"
proof -
  have req: "build_request test_tools ''/spaces/all'' ''GET'' None
      = Get ''https://test-octopus.octopus.app/api/spaces/all''
          [(''X-Octopus-ApiKey'', Some ''API-TEST123456789''), (''Content-Type'', Some ''application/json'')]"
    by (simp add: build_request_def test_tools_def get_headers_def lstrip_slash_def upper_is_POST_def)
  have answer: "scripted [Response 404 ''gone'' (Inl ''no JSON'')] []
        (build_request test_tools ''/spaces/all'' ''GET'' None) = Response 404 ''gone'' (Inl ''no JSON'')"
    by (simp add: scripted_def)
  have creds: "base_url test_tools \<noteq> [] \<and> api_key test_tools \<noteq> None \<and> api_key test_tools \<noteq> Some []"
    by (simp add: test_tools_def)
  have first: "make_request test_tools (scripted [Response 404 ''gone'' (Inl ''no JSON'')])
       ''/spaces/all'' ''GET'' None []
     = (Inr (error_value ''Resource not found.''),
        [Get ''https://test-octopus.octopus.app/api/spaces/all''
           [(''X-Octopus-ApiKey'', Some ''API-TEST123456789''), (''Content-Type'', Some ''application/json'')]])"
    using make_request_never_raises
      [of test_tools "scripted [Response 404 ''gone'' (Inl ''no JSON'')]" "''/spaces/all''" "''GET''" None "[]"]
      creds answer
    by (simp add: req prod_eq_iff)
  have second: "make_request (test_tools\<lparr>api_key := None\<rparr>) (scripted [Response 404 ''gone'' (Inl ''no JSON'')])
       ''/spaces/all'' ''GET'' None []
     = (Inr (error_value ''Missing Octopus Deploy credentials. Please configure OCTOPUS_URL and OCTOPUS_API_KEY environment variables.''), [])"
    using make_request_never_raises
      [of "test_tools\<lparr>api_key := None\<rparr>" "scripted [Response 404 ''gone'' (Inl ''no JSON'')]"
          "''/spaces/all''" "''GET''" None "[]"]
    by simp
  show ?thesis using first second by simp
qed

subsection \<open>The release selector\<close>

lemma first_version_find:
  "\<forall>x\<in>set xs. is_obj x \<Longrightarrow>
   first_version xs v = Inr (case find (has_version v) xs of Some x \<Rightarrow> x | None \<Rightarrow> JNull)"
proof (induction xs)
  case Nil
  then show ?case by simp
next
  case (Cons x xs)
  then obtain kvs where x: "x = JObj kvs" by (cases x) auto
  with Cons show ?case
    by (auto simp: res_bind_def has_version_def split: option.splits)
qed

text \<open>
  C4, as the code has it. \<^verbatim>\<open>_find_release\<close> returns \<^verbatim>\<open>None\<close> for the empty list whatever the
  version argument. For a non-empty list of release objects and a non-empty version text it
  returns the first release whose \<^verbatim>\<open>Version\<close> field is exactly that text (text equality, so
  letter case counts), and \<^verbatim>\<open>None\<close> when there is none. For a non-empty list and no version,
  or the empty text as version, it returns the first element of the list as given.
\<close>

theorem find_release_selects:
  "find_release (JList []) version = Inr JNull
   \<and> (releases \<noteq> [] \<and> (\<forall>x\<in>set releases. is_obj x) \<and> v \<noteq> [] \<longrightarrow>
        find_release (JList releases) (Some v)
          = Inr (case find (has_version v) releases of Some x \<Rightarrow> x | None \<Rightarrow> JNull))
   \<and> (releases \<noteq> [] \<and> (version = None \<or> version = Some []) \<longrightarrow>
        find_release (JList releases) version = Inr (hd releases))"
proof -
  have none: "find_release (JList []) version = Inr JNull"
    by (simp add: find_release_def)
  have given: "releases \<noteq> [] \<and> (\<forall>x\<in>set releases. is_obj x) \<and> v \<noteq> [] \<longrightarrow>
        find_release (JList releases) (Some v)
          = Inr (case find (has_version v) releases of Some x \<Rightarrow> x | None \<Rightarrow> JNull)"
    by (simp add: find_release_def res_bind_def first_version_find)
  have latest: "releases \<noteq> [] \<and> (version = None \<or> version = Some []) \<longrightarrow>
        find_release (JList releases) version = Inr (hd releases)"
    by (cases releases) (auto simp: find_release_def)
  from none given latest show ?thesis by blast
qed

subsection \<open>The name resolver\<close>

lemma first_named_find:
  "\<forall>x\<in>set xs. named_entity x \<Longrightarrow>
   first_named xs name = Inr (case find (name_matches name) xs of Some x \<Rightarrow> x | None \<Rightarrow> JNull)"
proof (induction xs)
  case Nil
  then show ?case by simp
next
  case (Cons x xs)
  then obtain kvs s where x: "x = JObj kvs" "map_of kvs ''Name'' = Some (JStr s)"
    by (auto simp: named_entity_def split: json.splits option.splits)
  with Cons show ?case
    by (auto simp: res_bind_def name_matches_def)
qed

lemma named_entity_not_error: "\<forall>x\<in>set xs. named_entity x \<Longrightarrow> JStr k \<notin> set xs"
  by (auto simp: named_entity_def)

lemma make_request_ok:
  assumes "base_url self \<noteq> []" "api_key self \<noteq> None" "api_key self \<noteq> Some []"
    and "srv h (build_request self endpoint method data) = Response status body (Inr j)"
    and "status = 200 \<or> status = 201"
  shows "make_request self srv endpoint method data h
           = (Inr j, h @ [build_request self endpoint method data])"
  using assms by (auto simp: make_request_def Let_def truthy_str_iff)

lemma get_by_name_resolves:
  assumes creds: "base_url self \<noteq> []" "api_key self \<noteq> None" "api_key self \<noteq> Some []"
    and answer: "srv h (build_request self uri ''GET'' None) = Response status body (Inr coll)"
      "status = 200 \<or> status = 201"
    and shape: "coll = JList items
         \<or> (\<exists>kvs. coll = JObj kvs \<and> ''error'' \<notin> fst ` set kvs
                   \<and> map_of kvs ''Items'' = Some (JList items))"
    and entities: "\<forall>x\<in>set items. named_entity x"
  shows "get_by_name self srv uri name h
          = (Inr (case find (name_matches name) items of Some x \<Rightarrow> x | None \<Rightarrow> JNull),
             h @ [build_request self uri ''GET'' None])"
proof -
  have fetched: "make_request self srv uri ''GET'' None h
      = (Inr coll, h @ [build_request self uri ''GET'' None])"
    using creds answer by (rule make_request_ok)
  have found: "res_bind (py_in ''error'' coll) (\<lambda>failed.
       if failed then Inr JNull
       else
         res_bind (items_either coll) (\<lambda>items.
         res_bind (py_iter items) (\<lambda>xs.
           first_named xs name)))
     = Inr (case find (name_matches name) items of Some x \<Rightarrow> x | None \<Rightarrow> JNull)"
    using shape
  proof
    assume "coll = JList items"
    then show ?thesis
      using entities named_entity_not_error [OF entities, of "''error''"]
      by (simp add: res_bind_def items_either_def first_named_find)
  next
    assume "\<exists>kvs. coll = JObj kvs \<and> ''error'' \<notin> fst ` set kvs
                   \<and> map_of kvs ''Items'' = Some (JList items)"
    then show ?thesis
      using entities
      by (auto simp: res_bind_def items_either_def first_named_find)
  qed
  show ?thesis
    by (simp add: get_by_name_def io_bind_def io_lift_def fetched found)
qed

lemma named_entity_truthy: "named_entity x \<Longrightarrow> truthy x"
  by (cases x) (auto simp: named_entity_def)

lemma get_space_resolves:
  assumes creds: "base_url self \<noteq> []" "api_key self \<noteq> None" "api_key self \<noteq> Some []"
    and answer: "srv h (build_request self ''spaces/all'' ''GET'' None) = Response status body (Inr coll)"
      "status = 200 \<or> status = 201"
    and shape: "coll = JList items
         \<or> (\<exists>kvs. coll = JObj kvs \<and> ''error'' \<notin> fst ` set kvs
                   \<and> map_of kvs ''Items'' = Some (JList items))"
    and entities: "\<forall>x\<in>set items. named_entity x"
    and ids: "\<forall>x\<in>set items. \<exists>i. subscript x ''Id'' = Inr i"
  shows "get_space self srv arg h
          = (Inr (case find (name_matches (with_default ''Default'' arg)) items of
                    Some x \<Rightarrow> x | None \<Rightarrow> JNull),
             h @ [build_request self ''spaces/all'' ''GET'' None])"
proof -
  have found: "get_by_name self srv ''spaces/all'' (with_default ''Default'' arg) h
          = (Inr (case find (name_matches (with_default ''Default'' arg)) items of
                    Some x \<Rightarrow> x | None \<Rightarrow> JNull),
             h @ [build_request self ''spaces/all'' ''GET'' None])"
    using creds answer shape entities by (rule get_by_name_resolves)
  show ?thesis
  proof (cases "find (name_matches (with_default ''Default'' arg)) items")
    case None
    with found show ?thesis
      by (simp add: get_space_def io_bind_def io_return_def)
  next
    case (Some x)
    then have "x \<in> set items"
      by (auto simp: find_Some_iff)
    with entities ids obtain i where "truthy x" "subscript x ''Id'' = Inr i"
      using named_entity_truthy by blast
    with found Some show ?thesis
      by (simp add: get_space_def io_bind_def io_return_def io_lift_def)
  qed
qed

text \<open>
  C6. When the collection endpoint answers with a collection of named entities, as a bare
  list or as an object with an item list, \<^verbatim>\<open>_get_by_name\<close> returns the first entry, in the
  order returned, whose name equals the requested name when both are put in lower case, and
  \<^verbatim>\<open>None\<close> when no entry does. \<^verbatim>\<open>_get_space\<close> resolves in this way against the endpoint
  \<^verbatim>\<open>spaces/all\<close> (the spaces having an id), with the name it is given, and with the name
  \<^verbatim>\<open>Default\<close> when it is given none.
\<close>

theorem get_by_name_first_match:
  "(base_url self \<noteq> [] \<and> api_key self \<noteq> None \<and> api_key self \<noteq> Some []
      \<and> srv h (build_request self uri ''GET'' None) = Response status body (Inr coll)
      \<and> (status = 200 \<or> status = 201)
      \<and> (coll = JList items
           \<or> (\<exists>kvs. coll = JObj kvs \<and> ''error'' \<notin> fst ` set kvs
                     \<and> map_of kvs ''Items'' = Some (JList items)))
      \<and> (\<forall>x\<in>set items. named_entity x)
    \<longrightarrow> get_by_name self srv uri name h
          = (Inr (case find (name_matches name) items of Some x \<Rightarrow> x | None \<Rightarrow> JNull),
             h @ [build_request self uri ''GET'' None]))
   \<and> (base_url self \<noteq> [] \<and> api_key self \<noteq> None \<and> api_key self \<noteq> Some []
      \<and> srv h (build_request self ''spaces/all'' ''GET'' None) = Response status body (Inr coll)
      \<and> (status = 200 \<or> status = 201)
      \<and> (coll = JList items
           \<or> (\<exists>kvs. coll = JObj kvs \<and> ''error'' \<notin> fst ` set kvs
                     \<and> map_of kvs ''Items'' = Some (JList items)))
      \<and> (\<forall>x\<in>set items. named_entity x \<and> (\<exists>i. subscript x ''Id'' = Inr i))
    \<longrightarrow> get_space self srv (Some name) h
          = (Inr (case find (name_matches name) items of Some x \<Rightarrow> x | None \<Rightarrow> JNull),
             h @ [build_request self ''spaces/all'' ''GET'' None])
        \<and> get_space self srv None h
          = (Inr (case find (name_matches ''Default'') items of Some x \<Rightarrow> x | None \<Rightarrow> JNull),
             h @ [build_request self ''spaces/all'' ''GET'' None]))
   \<and> get_space self srv None = get_space self srv (Some ''Default'')"
proof -
  have default: "get_space self srv None = get_space self srv (Some ''Default'')"
    by (simp add: get_space_def)
  have named: "get_space self srv (Some name) h
          = (Inr (case find (name_matches name) items of Some x \<Rightarrow> x | None \<Rightarrow> JNull),
             h @ [build_request self ''spaces/all'' ''GET'' None])"
    and unnamed: "get_space self srv None h
          = (Inr (case find (name_matches ''Default'') items of Some x \<Rightarrow> x | None \<Rightarrow> JNull),
             h @ [build_request self ''spaces/all'' ''GET'' None])"
    if "base_url self \<noteq> []" "api_key self \<noteq> None" "api_key self \<noteq> Some []"
      "srv h (build_request self ''spaces/all'' ''GET'' None) = Response status body (Inr coll)"
      "status = 200 \<or> status = 201"
      "coll = JList items
           \<or> (\<exists>kvs. coll = JObj kvs \<and> ''error'' \<notin> fst ` set kvs
                     \<and> map_of kvs ''Items'' = Some (JList items))"
      "\<forall>x\<in>set items. named_entity x \<and> (\<exists>i. subscript x ''Id'' = Inr i)"
    using get_space_resolves [of self srv h status body coll items "Some name"]
      get_space_resolves [of self srv h status body coll items None] that
    by simp_all
  have resolve: "get_by_name self srv uri name h
          = (Inr (case find (name_matches name) items of Some x \<Rightarrow> x | None \<Rightarrow> JNull),
             h @ [build_request self uri ''GET'' None])"
    if "base_url self \<noteq> []" "api_key self \<noteq> None" "api_key self \<noteq> Some []"
      "srv h (build_request self uri ''GET'' None) = Response status body (Inr coll)"
      "status = 200 \<or> status = 201"
      "coll = JList items
           \<or> (\<exists>kvs. coll = JObj kvs \<and> ''error'' \<notin> fst ` set kvs
                     \<and> map_of kvs ''Items'' = Some (JList items))"
      "\<forall>x\<in>set items. named_entity x"
    using that by (rule get_by_name_resolves)
  from default resolve named unnamed show ?thesis by blast
qed


text \<open>
  The second of two releases is found by its version, an absent version gives \<^verbatim>\<open>None\<close>, and
  without a version the first release is the answer.
\<close>

theorem find_release_selects_witness:
  "find_release (JList [sample_release_data, second_release_data]) (Some ''2.0'')
     = Inr second_release_data
   \<and> find_release (JList [sample_release_data, second_release_data]) (Some ''9.9'') = Inr JNull
   \<and> find_release (JList [sample_release_data, second_release_data]) None
     = Inr sample_release_data"
proof -
  have objects: "\<forall>x\<in>set [sample_release_data, second_release_data]. is_obj x"
    by (simp add: sample_release_data_def second_release_data_def)
  have second: "find (has_version ''2.0'') [sample_release_data, second_release_data]
      = Some second_release_data"
    by (simp add: has_version_def sample_release_data_def second_release_data_def)
  have absent: "find (has_version ''9.9'') [sample_release_data, second_release_data] = None"
    by (simp add: has_version_def sample_release_data_def second_release_data_def)
  show ?thesis
    using find_release_selects [of None "[sample_release_data, second_release_data]" "''2.0''"]
      find_release_selects [of None "[sample_release_data, second_release_data]" "''9.9''"]
      objects second absent
    by simp
qed

text \<open>
  C4 as stated fails for the empty text as version: no release has the version \<^verbatim>\<open>""\<close>, yet
  the selector returns the first release instead of \<^verbatim>\<open>None\<close>, because \<^verbatim>\<open>if version:\<close> takes the
  empty text for a version that was not supplied.
\<close>

theorem find_release_empty_version_counterexample:
  "find_release (JList [sample_release_data]) (Some []) = Inr sample_release_data
   \<and> find (has_version []) [sample_release_data] = None"
  by (simp add: find_release_def has_version_def sample_release_data_def)

text \<open>
  Resolving \<^verbatim>\<open>default\<close> among the spaces \<^verbatim>\<open>Default\<close> and \<^verbatim>\<open>DEFAULT\<close> finds \<^verbatim>\<open>Default\<close>, the first of
  the two matches, in both forms of the collection; a name that no space has gives \<^verbatim>\<open>None\<close>.
  Among the spaces \<^verbatim>\<open>Archive\<close> and \<^verbatim>\<open>Default\<close>, \<^verbatim>\<open>_get_space\<close> without a name finds \<^verbatim>\<open>Default\<close>,
  the second of them, and with the name \<^verbatim>\<open>archive\<close> it finds \<^verbatim>\<open>Archive\<close>.
\<close>

theorem get_by_name_first_match_witness:
  "get_by_name test_tools (scripted [ok (JList [sample_space_data, shouting_space_data])])
       ''spaces/all'' ''default'' []
     = (Inr sample_space_data, [build_request test_tools ''spaces/all'' ''GET'' None])
   \<and> get_by_name test_tools
       (scripted [ok (JObj [(''Items'', JList [sample_space_data, shouting_space_data])])])
       ''spaces/all'' ''default'' []
     = (Inr sample_space_data, [build_request test_tools ''spaces/all'' ''GET'' None])
   \<and> get_by_name test_tools (scripted [ok (JList [sample_space_data, shouting_space_data])])
       ''spaces/all'' ''Production'' []
     = (Inr JNull, [build_request test_tools ''spaces/all'' ''GET'' None])
   \<and> get_space test_tools (scripted [ok (JList [archive_space_data, sample_space_data])]) None []
     = (Inr sample_space_data, [build_request test_tools ''spaces/all'' ''GET'' None])
   \<and> get_space test_tools (scripted [ok (JList [archive_space_data, sample_space_data])])
       (Some ''archive'') []
     = (Inr archive_space_data, [build_request test_tools ''spaces/all'' ''GET'' None])"
proof -
  have creds: "base_url test_tools \<noteq> [] \<and> api_key test_tools \<noteq> None \<and> api_key test_tools \<noteq> Some []"
    by (simp add: test_tools_def)
  have entities: "\<forall>x\<in>set [sample_space_data, shouting_space_data]. named_entity x"
    by (simp add: named_entity_def sample_space_data_def shouting_space_data_def)
  have bare: "scripted [ok (JList [sample_space_data, shouting_space_data])] []
        (build_request test_tools ''spaces/all'' ''GET'' None)
      = Response 200 [] (Inr (JList [sample_space_data, shouting_space_data]))"
    by (simp add: scripted_def ok_def)
  have wrapped: "scripted [ok (JObj [(''Items'', JList [sample_space_data, shouting_space_data])])] []
        (build_request test_tools ''spaces/all'' ''GET'' None)
      = Response 200 [] (Inr (JObj [(''Items'', JList [sample_space_data, shouting_space_data])]))"
    by (simp add: scripted_def ok_def)
  have first: "find (name_matches ''default'') [sample_space_data, shouting_space_data]
      = Some sample_space_data"
    by (simp add: name_matches_def sample_space_data_def lower_def)
  have none: "find (name_matches ''Production'') [sample_space_data, shouting_space_data] = None"
    by (simp add: name_matches_def sample_space_data_def shouting_space_data_def lower_def)
  have one: "get_by_name test_tools (scripted [ok (JList [sample_space_data, shouting_space_data])])
       ''spaces/all'' ''default'' []
     = (Inr sample_space_data, [build_request test_tools ''spaces/all'' ''GET'' None])"
    using get_by_name_first_match
      [of test_tools "scripted [ok (JList [sample_space_data, shouting_space_data])]" "[]"
          "''spaces/all''" 200 "[]" "JList [sample_space_data, shouting_space_data]"
          "[sample_space_data, shouting_space_data]" "''default''"]
      creds entities bare first
    by simp
  have two: "get_by_name test_tools
       (scripted [ok (JObj [(''Items'', JList [sample_space_data, shouting_space_data])])])
       ''spaces/all'' ''default'' []
     = (Inr sample_space_data, [build_request test_tools ''spaces/all'' ''GET'' None])"
    using get_by_name_first_match
      [of test_tools "scripted [ok (JObj [(''Items'', JList [sample_space_data, shouting_space_data])])]"
          "[]" "''spaces/all''" 200 "[]"
          "JObj [(''Items'', JList [sample_space_data, shouting_space_data])]"
          "[sample_space_data, shouting_space_data]" "''default''"]
      creds entities wrapped first
    by simp
  have three: "get_by_name test_tools (scripted [ok (JList [sample_space_data, shouting_space_data])])
       ''spaces/all'' ''Production'' []
     = (Inr JNull, [build_request test_tools ''spaces/all'' ''GET'' None])"
    using get_by_name_first_match
      [of test_tools "scripted [ok (JList [sample_space_data, shouting_space_data])]" "[]"
          "''spaces/all''" 200 "[]" "JList [sample_space_data, shouting_space_data]"
          "[sample_space_data, shouting_space_data]" "''Production''"]
      creds entities bare none
    by simp
  have spaces: "\<forall>x\<in>set [archive_space_data, sample_space_data].
      named_entity x \<and> (\<exists>i. subscript x ''Id'' = Inr i)"
    by (simp add: named_entity_def sample_space_data_def archive_space_data_def)
  have listed: "scripted [ok (JList [archive_space_data, sample_space_data])] []
        (build_request test_tools ''spaces/all'' ''GET'' None)
      = Response 200 [] (Inr (JList [archive_space_data, sample_space_data]))"
    by (simp add: scripted_def ok_def)
  have default: "find (name_matches ''Default'') [archive_space_data, sample_space_data]
      = Some sample_space_data"
    by (simp add: name_matches_def sample_space_data_def archive_space_data_def lower_def)
  have archive: "find (name_matches ''archive'') [archive_space_data, sample_space_data]
      = Some archive_space_data"
    by (simp add: name_matches_def archive_space_data_def lower_def)
  have four: "get_space test_tools (scripted [ok (JList [archive_space_data, sample_space_data])]) None []
     = (Inr sample_space_data, [build_request test_tools ''spaces/all'' ''GET'' None])
   \<and> get_space test_tools (scripted [ok (JList [archive_space_data, sample_space_data])])
       (Some ''archive'') []
     = (Inr archive_space_data, [build_request test_tools ''spaces/all'' ''GET'' None])"
    using get_by_name_first_match
      [of test_tools "scripted [ok (JList [archive_space_data, sample_space_data])]" "[]"
          "''spaces/all''" 200 "[]" "JList [archive_space_data, sample_space_data]"
          "[archive_space_data, sample_space_data]" "''archive''",
       THEN conjunct2, THEN conjunct1]
      creds spaces listed default archive
    by simp
  from one two three four show ?thesis by simp
qed

subsection \<open>Shapes of intermediate results\<close>

lemma pick_obj:
  "pick (JObj kvs) fs
     = Inr (map (\<lambda>(out, key, d). (out, case map_of kvs key of None \<Rightarrow> d | Some v \<Rightarrow> v)) fs)"
  by (induction fs) (auto simp: res_bind_def)

lemma first_named_shape: "first_named xs name = Inr x \<Longrightarrow> x = JNull \<or> is_obj x"
proof (induction xs)
  case Nil
  then show ?case by simp
next
  case (Cons y ys)
  then show ?case
    by (cases y) (auto simp: res_bind_def split: sum.splits if_splits)
qed

lemma get_by_name_shape:
  assumes "get_by_name self srv uri name h = (Inr x, h')"
  shows "x = JNull \<or> is_obj x"
proof -
  obtain r h1 where fetched: "make_request self srv uri ''GET'' None h = (r, h1)"
    by (cases "make_request self srv uri ''GET'' None h")
  from assms fetched show ?thesis
    by (auto simp: get_by_name_def io_bind_def io_lift_def res_bind_def
             split: sum.splits if_splits dest: first_named_shape)
qed

lemma get_by_name_truthy:
  "get_by_name self srv uri name h = (Inr x, h') \<Longrightarrow> truthy x \<Longrightarrow> is_obj x"
  using get_by_name_shape by fastforce

lemma get_space_shape:
  assumes "get_space self srv arg h = (Inr space, h')" and "truthy space"
  shows "is_obj space \<and> (\<exists>i. subscript space ''Id'' = Inr i)"
proof -
  obtain r h1 where found: "get_by_name self srv ''spaces/all'' (with_default ''Default'' arg) h = (r, h1)"
    by (cases "get_by_name self srv ''spaces/all'' (with_default ''Default'' arg) h")
  from assms found show ?thesis
    by (auto simp: get_space_def io_bind_def io_lift_def io_return_def
             split: sum.splits if_splits dest: get_by_name_truthy)
qed

lemma is_objE: "is_obj x \<Longrightarrow> (\<And>kvs. x = JObj kvs \<Longrightarrow> P) \<Longrightarrow> P"
  by (cases x) auto

subsection \<open>Project details\<close>

text \<open>
  C8, as the code has it. When the space resolves and the project name does not resolve
  within that space, \<^verbatim>\<open>get_project_details\<close> returns the error payload whose message is
  \<^verbatim>\<open>Project '<name>' not found in space '<space>'\<close>.
\<close>

theorem get_project_details_project_not_found:
  assumes "project_name \<noteq> []"
    and "get_space self srv (Some space_name) h0 = (Inr space, h1)"
    and "truthy space"
    and "subscript space ''Id'' = Inr space_id"
    and "get_by_name self srv (py_str space_id @ ''/projects/all'') project_name h1 = (Inr project, h2)"
    and "\<not> truthy project"
  shows "get_project_details self srv project_name (Some space_name) h0
           = (Inr (error_value
                (''Project '' @ quoted project_name @ '' not found in space '' @ quoted space_name)), h2)"
  using assms
  by (simp add: get_project_details_def io_bind_def io_return_def io_lift_def json_response_def)

lemma filter_active_shape:
  "filter_active envs ids = Inr out \<Longrightarrow> e \<in> set out \<Longrightarrow> \<exists>i n. e = JObj [(''id'', i), (''name'', n)]"
proof (induction envs arbitrary: out)
  case Nil
  then show ?case by simp
next
  case (Cons env envs)
  then show ?case
    by (auto simp: res_bind_def split: sum.splits if_splits)
qed

text \<open>A step that returned normally was preceded by steps that did.\<close>

lemma io_bind_InrE:
  assumes "io_bind m f h = (Inr b, h')"
  obtains a h1 where "m h = (Inr a, h1)" and "f a h1 = (Inr b, h')"
  using assms by (auto simp: io_bind_def split: prod.splits sum.splits)

lemma get_active_environments_filtered:
  assumes "get_active_environments self srv space_id project_id h = (Inr out, h')"
  shows "out = [] \<or> (\<exists>envs ids. filter_active envs ids = Inr out)"
  using assms unfolding get_active_environments_def
  by (auto elim!: io_bind_InrE simp: io_return_def io_lift_def res_bind_def
           split: if_splits sum.splits)

lemma get_active_environments_shape:
  assumes "get_active_environments self srv space_id project_id h = (Inr out, h')"
    and "e \<in> set out"
  shows "\<exists>i n. e = JObj [(''id'', i), (''name'', n)]"
  using get_active_environments_filtered [OF assms(1)] assms(2)
  by (auto dest: filter_active_shape)

text \<open>
  C3. When the space and the project resolve, \<^verbatim>\<open>get_project_details\<close> returns a success payload
  whose \<^verbatim>\<open>active_environments\<close> field is exactly the text
  \<^verbatim>\<open>There is no active environment with a release for this project\<close> if the derived list of
  active environments is empty, and that list, whose elements are objects with the fields
  \<^verbatim>\<open>id\<close> and \<^verbatim>\<open>name\<close>, if it is not.
\<close>

theorem get_project_details_active_environments:
  assumes "project_name \<noteq> []"
    and "get_space self srv (Some space_name) h0 = (Inr space, h1)"
    and "truthy space"
    and "subscript space ''Id'' = Inr space_id"
    and "get_by_name self srv (py_str space_id @ ''/projects/all'') project_name h1 = (Inr project, h2)"
    and "truthy project"
    and "subscript project ''Id'' = Inr project_id"
    and "get_active_environments self srv space_id project_id h2 = (Inr environments, h3)"
  shows "\<exists>payload. get_project_details self srv project_name (Some space_name) h0 = (Inr (JObj payload), h3)
     \<and> map_of payload ''success'' = Some (JBool True)
     \<and> map_of payload ''active_environments''
          = Some (if environments = [] then JStr ''There is no active environment with a release for this project''
                  else JList environments)
     \<and> (\<forall>e\<in>set environments. \<exists>i n. e = JObj [(''id'', i), (''name'', n)])"
proof -
  have shape: "\<forall>e\<in>set environments. \<exists>i n. e = JObj [(''id'', i), (''name'', n)]"
    using get_active_environments_shape [OF assms(8)] by blast
  from assms(2,3) obtain skvs where space: "space = JObj skvs"
    by (auto dest: get_space_shape elim: is_objE)
  from assms(5,6) obtain pkvs where project: "project = JObj pkvs"
    by (auto dest: get_by_name_truthy elim: is_objE)
  show ?thesis
    using assms shape unfolding space project
    by (simp add: get_project_details_def io_bind_def io_return_def io_lift_def json_response_def
          res_bind_def pick_obj space_fields_def no_active_environment_def)
qed


text \<open>The definitions that a run against a scripted remote unfolds.\<close>

lemmas run_defs =
  get_space_def get_by_name_def make_request_def build_request_def get_headers_def
  get_project_releases_def get_active_environments_def
  io_bind_def io_return_def io_lift_def res_bind_def items_either_def items_field_def
  scripted_def ok_def test_tools_def lstrip_slash_def upper_is_POST_def lower_def
  json_response_def error_response_def error_value_def

lemmas sample_defs =
  sample_space_data_def sample_project_data_def sample_release_data_def
  sample_environment_data_def sample_deployment_data_def sample_task_data_def


text \<open>The run of \<^verbatim>\<open>test_get_project_details_project_not_found\<close>.\<close>

theorem get_project_details_project_not_found_witness:
  "get_project_details test_tools remote_project_missing ''NonExistentProject'' (Some ''Default'') []
     = (Inr (error_value
          (''Project '' @ quoted ''NonExistentProject'' @ '' not found in space '' @ quoted ''Default'')),
        [get_request ''spaces/all'', get_request ''Spaces-1/projects/all''])"
proof -
  have space: "get_space test_tools remote_project_missing (Some ''Default'') []
      = (Inr sample_space_data, [get_request ''spaces/all''])"
    by (simp add: remote_project_missing_def get_request_def run_defs sample_defs)
  have space_id: "subscript sample_space_data ''Id'' = Inr (JStr ''Spaces-1'')"
    by (simp add: sample_defs)
  have project: "get_by_name test_tools remote_project_missing
        (py_str (JStr ''Spaces-1'') @ ''/projects/all'') ''NonExistentProject''
        [get_request ''spaces/all'']
      = (Inr JNull, [get_request ''spaces/all'', get_request ''Spaces-1/projects/all''])"
    by (simp add: remote_project_missing_def get_request_def run_defs sample_defs)
  show ?thesis
    using get_project_details_project_not_found [OF _ space _ space_id project]
    by (simp add: sample_defs)
qed

text \<open>
  C8 as stated fails: in that run the message is not
  \<^verbatim>\<open>Project 'NonExistentProject' not found in Default space\<close>, the wording of the other tools.
\<close>

theorem get_project_details_message_counterexample:
  "fst (get_project_details test_tools remote_project_missing ''NonExistentProject'' (Some ''Default'') [])
     = Inr (error_value
         (''Project '' @ quoted ''NonExistentProject'' @ '' not found in space '' @ quoted ''Default''))
   \<and> fst (get_project_details test_tools remote_project_missing ''NonExistentProject'' (Some ''Default'') [])
     \<noteq> Inr (error_value
         (''Project '' @ quoted ''NonExistentProject'' @ '' not found in Default space''))"
  by (simp add: get_project_details_def remote_project_missing_def run_defs sample_defs quoted_def Let_def)

text \<open>
  A project whose latest release has no deployment reports the text; the project of
  \<^verbatim>\<open>test_get_project_details_with_active_environments\<close> reports the list with Production.
\<close>

theorem get_project_details_active_environments_witness:
  "(\<exists>payload h. get_project_details test_tools remote_no_deployments ''TestProject'' (Some ''Default'') []
        = (Inr (JObj payload), h)
      \<and> map_of payload ''active_environments''
        = Some (JStr ''There is no active environment with a release for this project''))
   \<and> (\<exists>payload h. get_project_details test_tools remote_active_environment ''TestProject'' (Some ''Default'') []
        = (Inr (JObj payload), h)
      \<and> map_of payload ''active_environments''
        = Some (JList [JObj [(''id'', JStr ''Environments-1''), (''name'', JStr ''Production'')]]))"
proof -
  have space_id: "subscript sample_space_data ''Id'' = Inr (JStr ''Spaces-1'')"
    by (simp add: sample_defs)
  have project_id: "subscript sample_project_data ''Id'' = Inr (JStr ''Projects-1'')"
    by (simp add: sample_defs)
  have space1: "get_space test_tools remote_no_deployments (Some ''Default'') []
      = (Inr sample_space_data, [get_request ''spaces/all''])"
    by (simp add: remote_no_deployments_def get_request_def run_defs sample_defs)
  have project1: "get_by_name test_tools remote_no_deployments
        (py_str (JStr ''Spaces-1'') @ ''/projects/all'') ''TestProject'' [get_request ''spaces/all'']
      = (Inr sample_project_data, [get_request ''spaces/all'', get_request ''Spaces-1/projects/all''])"
    by (simp add: remote_no_deployments_def get_request_def run_defs sample_defs)
  have active1: "get_active_environments test_tools remote_no_deployments
        (JStr ''Spaces-1'') (JStr ''Projects-1'')
        [get_request ''spaces/all'', get_request ''Spaces-1/projects/all'']
      = (Inr [], [get_request ''spaces/all'', get_request ''Spaces-1/projects/all'',
           get_request ''Spaces-1/projects/Projects-1/releases'',
           get_request ''Spaces-1/releases/Releases-1/deployments''])"
    by (simp add: remote_no_deployments_def get_request_def run_defs sample_defs)
  have space2: "get_space test_tools remote_active_environment (Some ''Default'') []
      = (Inr sample_space_data, [get_request ''spaces/all''])"
    by (simp add: remote_active_environment_def get_request_def run_defs sample_defs)
  have project2: "get_by_name test_tools remote_active_environment
        (py_str (JStr ''Spaces-1'') @ ''/projects/all'') ''TestProject'' [get_request ''spaces/all'']
      = (Inr sample_project_data, [get_request ''spaces/all'', get_request ''Spaces-1/projects/all''])"
    by (simp add: remote_active_environment_def get_request_def run_defs sample_defs)
  have active2: "get_active_environments test_tools remote_active_environment
        (JStr ''Spaces-1'') (JStr ''Projects-1'')
        [get_request ''spaces/all'', get_request ''Spaces-1/projects/all'']
      = (Inr [JObj [(''id'', JStr ''Environments-1''), (''name'', JStr ''Production'')]],
         [get_request ''spaces/all'', get_request ''Spaces-1/projects/all'',
           get_request ''Spaces-1/projects/Projects-1/releases'',
           get_request ''Spaces-1/releases/Releases-1/deployments'',
           get_request ''Spaces-1/environments/all''])"
    by (simp add: remote_active_environment_def get_request_def run_defs sample_defs
          set_member_def set_add_def)
  have truthy: "truthy sample_space_data" "truthy sample_project_data" "''TestProject'' \<noteq> []"
    by (simp_all add: sample_defs)
  show ?thesis
    using get_project_details_active_environments
            [OF truthy(3) space1 truthy(1) space_id project1 truthy(2) project_id active1]
          get_project_details_active_environments
            [OF truthy(3) space2 truthy(1) space_id project2 truthy(2) project_id active2]
    by auto
qed

subsection \<open>Deploying a release\<close>

lemma find_release_truthy:
  assumes "find_release releases version = Inr release" and "truthy release"
  shows "truthy releases \<and> (\<exists>n. py_len releases = Inr n)"
proof -
  from assms have t: "truthy releases"
    by (auto simp: find_release_def split: if_splits)
  from assms t have "(\<exists>xs. py_iter releases = Inr xs) \<or> (\<exists>x. index0 releases = Inr x)"
    by (auto simp: find_release_def res_bind_def split: if_splits option.splits sum.splits)
  then have "\<exists>n. py_len releases = Inr n"
    by (cases releases) auto
  with t show ?thesis by simp
qed

lemma is_error_value_obj: "is_error_value j \<Longrightarrow> is_obj j"
  by (auto simp: is_error_value_def error_value_def)

text \<open>
  C1. When the space, the project, the release and the environment all resolve,
  \<^verbatim>\<open>deploy_release\<close> sends the creation request and, whatever object comes back for it (the
  decoded deployment or a tagged error value), returns a payload with \<^verbatim>\<open>success\<close> true, the
  fixed advisory message and the pointer to the status check. When the creation request
  came back as a tagged error value, the fields \<^verbatim>\<open>id\<close>, \<^verbatim>\<open>name\<close>, \<^verbatim>\<open>state\<close>, \<^verbatim>\<open>created\<close> and
  \<^verbatim>\<open>task_id\<close> of the \<^verbatim>\<open>deployment\<close> object are null.
\<close>

theorem deploy_release_success_shaped:
  assumes "project_name \<noteq> []" and "environment_name \<noteq> []"
    and "get_space self srv (Some space_name) h0 = (Inr space, h1)"
    and "truthy space"
    and "subscript space ''Id'' = Inr space_id"
    and "get_by_name self srv (py_str space_id @ ''/projects/all'') project_name h1 = (Inr project, h2)"
    and "truthy project"
    and "subscript project ''Id'' = Inr project_id"
    and "get_project_releases self srv space_id project_id h2 = (Inr releases_response, h3)"
    and "py_in ''error'' releases_response = Inr False"
    and "items_field releases_response = Inr releases"
    and "find_release releases release_version = Inr release"
    and "truthy release"
    and "is_obj release"
    and "get_by_name self srv (py_str space_id @ ''/environments/all'') environment_name h3
           = (Inr environment, h4)"
    and "truthy environment"
    and "make_request self srv (py_str space_id @ ''/deployments'') ''POST''
           (Some (JObj [(''ReleaseId'', field release ''Id''),
                        (''EnvironmentId'', field environment ''Id'')])) h4
           = (Inr deployment_response, h5)"
    and "is_obj deployment_response"
  shows "\<exists>payload.
      deploy_release self srv project_name environment_name release_version (Some space_name) h0
        = (Inr (JObj payload), h5)
      \<and> map_of payload ''success'' = Some (JBool True)
      \<and> map_of payload ''message'' = Some (JStr ''Deployment has been initiated successfully. This does not guarantee the deployment completed successfully.'')
      \<and> map_of payload ''next_step'' = Some (JStr next_step_message)
      \<and> (is_error_value deployment_response \<longrightarrow>
            map_of payload ''deployment''
              = Some (JObj [(''id'', JNull), (''name'', JNull), (''state'', JNull),
                            (''created'', JNull), (''task_id'', JNull)]))"
proof -
  from assms(3,4) obtain skvs where space: "space = JObj skvs"
    by (auto dest: get_space_shape elim: is_objE)
  from assms(6,7) obtain pkvs where project: "project = JObj pkvs"
    by (auto dest: get_by_name_truthy elim: is_objE)
  from assms(14) obtain rkvs where release: "release = JObj rkvs"
    by (auto elim: is_objE)
  from assms(15,16) obtain ekvs where environment: "environment = JObj ekvs"
    by (auto dest: get_by_name_truthy elim: is_objE)
  from assms(18) obtain dkvs where deployment: "deployment_response = JObj dkvs"
    by (auto elim: is_objE)
  from assms(12,13) obtain n where sized: "truthy releases" "py_len releases = Inr n"
    using find_release_truthy by blast
  have nulls: "is_error_value deployment_response \<Longrightarrow>
      pick deployment_response deployment_fields
        = Inr [(''id'', JNull), (''name'', JNull), (''state'', JNull),
               (''created'', JNull), (''task_id'', JNull)]"
    by (auto simp: is_error_value_def error_value_def deployment_fields_def res_bind_def)
  have flag: "\<exists>b. py_in ''error'' deployment_response = Inr b"
    by (simp add: deployment)
  then obtain b where b: "py_in ''error'' deployment_response = Inr b" ..
  have logged: "\<exists>v. (if b then py_get deployment_response ''error'' JNull else Inr JNull) = Inr v"
    by (simp add: deployment)
  then obtain v where v: "(if b then py_get deployment_response ''error'' JNull else Inr JNull) = Inr v" ..
  obtain dout where dout: "pick deployment_response deployment_fields = Inr dout"
    by (simp add: deployment pick_obj)
  have run: "deploy_release self srv project_name environment_name release_version (Some space_name) h0
     = (Inr (JObj
            [(''success'', JBool True),
             (''message'', JStr initiated_message),
             (''next_step'', JStr next_step_message),
             (''space'', JObj (map (\<lambda>(out, key, d). (out, case map_of skvs key of None \<Rightarrow> d | Some v \<Rightarrow> v)) space_fields)),
             (''project'', JObj (map (\<lambda>(out, key, d). (out, case map_of pkvs key of None \<Rightarrow> d | Some v \<Rightarrow> v)) space_fields)),
             (''release'', JObj (map (\<lambda>(out, key, d). (out, case map_of rkvs key of None \<Rightarrow> d | Some v \<Rightarrow> v)) release_fields)),
             (''environment'', JObj (map (\<lambda>(out, key, d). (out, case map_of ekvs key of None \<Rightarrow> d | Some v \<Rightarrow> v)) space_fields)),
             (''deployment'', JObj dout)]), h5)"
    using assms(1-13,15-17) sized b v dout
    unfolding space project release environment
    by (simp add: deploy_release_def io_bind_def io_return_def io_lift_def json_response_def
          res_bind_def pick_obj field_def)
  show ?thesis
    using run nulls dout by (auto simp: initiated_message_def)
qed


text \<open>
  The run of \<^verbatim>\<open>test_deployment_api_failure_handling\<close>: the creation request is answered with
  status 500, and the tool still reports success, with a deployment of nulls.
\<close>

theorem deploy_release_success_shaped_witness:
  "\<exists>payload h.
     deploy_release test_tools remote_deployment_fails ''TestProject'' ''Production''
         (Some ''1.0.0'') (Some ''Default'') []
       = (Inr (JObj payload), h)
     \<and> map_of payload ''success'' = Some (JBool True)
     \<and> map_of payload ''deployment''
       = Some (JObj [(''id'', JNull), (''name'', JNull), (''state'', JNull),
                     (''created'', JNull), (''task_id'', JNull)])"
proof -
  have names: "''TestProject'' \<noteq> []" "''Production'' \<noteq> []"
    by simp_all
  have space: "get_space test_tools remote_deployment_fails (Some ''Default'') []
      = (Inr sample_space_data, [get_request ''spaces/all''])"
    by (simp add: remote_deployment_fails_def get_request_def run_defs sample_defs)
  have space_id: "subscript sample_space_data ''Id'' = Inr (JStr ''Spaces-1'')"
    by (simp add: sample_defs)
  have project: "get_by_name test_tools remote_deployment_fails
        (py_str (JStr ''Spaces-1'') @ ''/projects/all'') ''TestProject'' [get_request ''spaces/all'']
      = (Inr sample_project_data, [get_request ''spaces/all'', get_request ''Spaces-1/projects/all''])"
    by (simp add: remote_deployment_fails_def get_request_def run_defs sample_defs)
  have project_id: "subscript sample_project_data ''Id'' = Inr (JStr ''Projects-1'')"
    by (simp add: sample_defs)
  have releases: "get_project_releases test_tools remote_deployment_fails
        (JStr ''Spaces-1'') (JStr ''Projects-1'')
        [get_request ''spaces/all'', get_request ''Spaces-1/projects/all'']
      = (Inr (JObj [(''Items'', JList [sample_release_data])]),
         [get_request ''spaces/all'', get_request ''Spaces-1/projects/all'',
          get_request ''Spaces-1/projects/Projects-1/releases''])"
    by (simp add: remote_deployment_fails_def get_request_def run_defs)
  have no_error: "py_in ''error'' (JObj [(''Items'', JList [sample_release_data])]) = Inr False"
    by simp
  have items: "items_field (JObj [(''Items'', JList [sample_release_data])])
      = Inr (JList [sample_release_data])"
    by (simp add: items_field_def)
  have release: "find_release (JList [sample_release_data]) (Some ''1.0.0'') = Inr sample_release_data"
    by (simp add: find_release_def res_bind_def sample_defs)
  have environment: "get_by_name test_tools remote_deployment_fails
        (py_str (JStr ''Spaces-1'') @ ''/environments/all'') ''Production''
        [get_request ''spaces/all'', get_request ''Spaces-1/projects/all'',
          get_request ''Spaces-1/projects/Projects-1/releases'']
      = (Inr sample_environment_data,
         [get_request ''spaces/all'', get_request ''Spaces-1/projects/all'',
          get_request ''Spaces-1/projects/Projects-1/releases'',
          get_request ''Spaces-1/environments/all''])"
    by (simp add: remote_deployment_fails_def get_request_def run_defs sample_defs)
  have created: "make_request test_tools remote_deployment_fails
        (py_str (JStr ''Spaces-1'') @ ''/deployments'') ''POST''
        (Some (JObj [(''ReleaseId'', field sample_release_data ''Id''),
                     (''EnvironmentId'', field sample_environment_data ''Id'')]))
        [get_request ''spaces/all'', get_request ''Spaces-1/projects/all'',
          get_request ''Spaces-1/projects/Projects-1/releases'',
          get_request ''Spaces-1/environments/all'']
      = (Inr (error_value ''API request failed with status 500: Internal Server Error''),
         [get_request ''spaces/all'', get_request ''Spaces-1/projects/all'',
          get_request ''Spaces-1/projects/Projects-1/releases'',
          get_request ''Spaces-1/environments/all'',
          build_request test_tools ''Spaces-1/deployments'' ''POST''
            (Some (JObj [(''ReleaseId'', JStr ''Releases-1''),
                         (''EnvironmentId'', JStr ''Environments-1'')]))])"
    by (simp add: remote_deployment_fails_def get_request_def run_defs sample_defs field_def
          str_int_def str_nat.simps digit_char_def)
  have shapes: "truthy sample_space_data" "truthy sample_project_data" "truthy sample_release_data"
      "is_obj sample_release_data" "truthy sample_environment_data"
      "is_obj (error_value ''API request failed with status 500: Internal Server Error'')"
      "is_error_value (error_value ''API request failed with status 500: Internal Server Error'')"
    by (auto simp: sample_defs error_value_def is_error_value_def)
  show ?thesis
    using deploy_release_success_shaped
      [OF names space shapes(1) space_id project shapes(2) project_id releases no_error items
          release shapes(3,4) environment shapes(5) created shapes(6)]
      shapes(7)
    by auto
qed

subsection \<open>Checking the deployment status\<close>

lemma field_get: "py_get x k JNull = Inr v \<Longrightarrow> field x k = v"
  by (simp add: field_def)

lemma env_deployments_of_filter:
  "env_deployments_of ds i = Inr out \<Longrightarrow>
   out = filter (\<lambda>d. py_eq (field d ''EnvironmentId'') i) ds"
proof (induction ds arbitrary: out)
  case Nil
  then show ?case by simp
next
  case (Cons d ds)
  from Cons.prems obtain v rest where
    v: "py_get d ''EnvironmentId'' JNull = Inr v" and
    rest: "env_deployments_of ds i = Inr rest" and
    out: "out = (if py_eq v i then d # rest else rest)"
    by (auto simp: res_bind_def split: sum.splits)
  from rest have "rest = filter (\<lambda>d. py_eq (field d ''EnvironmentId'') i) ds"
    by (rule Cons.IH)
  with out field_get [OF v] show ?case by simp
qed

lemma filter_empty_list_ex: "(filter P xs = []) = (\<not> list_ex P xs)"
  by (induction xs) auto

text \<open>
  The loop over the environments keeps, in order, exactly the environments that some
  deployment targets.
\<close>

lemma environment_statuses_loop_omits:
  assumes "environment_statuses_loop self srv envs deployments h = (Inr statuses, h')"
    and "py_iter deployments = Inr ds"
  shows "map (\<lambda>s. field s ''environment'') statuses = map env_ref (filter (deployed_in ds) envs)"
  using assms(1)
proof (induction envs arbitrary: statuses h)
  case Nil
  then show ?case by (simp add: io_return_def)
next
  case (Cons env envs)
  from Cons.prems obtain env_id env_name env_deployments where
    id: "py_get env ''Id'' JNull = Inr env_id" and
    name: "py_get env ''Name'' JNull = Inr env_name" and
    deps: "env_deployments_of ds env_id = Inr env_deployments" and
    rest: "(case env_deployments of
         [] \<Rightarrow> environment_statuses_loop self srv envs deployments
       | latest_deployment # older \<Rightarrow>
           io_bind (get_deployment_status self srv latest_deployment) (\<lambda>deployment_status.
           io_bind (environment_statuses_loop self srv envs deployments) (\<lambda>rest.
           io_return
             (JObj [(''environment'', JObj [(''id'', env_id), (''name'', env_name)]),
                    (''deployment_status'', deployment_status)] # rest)))) h = (Inr statuses, h')"
    by (auto elim!: io_bind_InrE simp: io_lift_def res_bind_def assms(2) split: sum.splits)
  have fid: "field env ''Id'' = env_id" and fname: "field env ''Name'' = env_name"
    using id name by (simp_all add: field_get)
  have filtered: "env_deployments = filter (\<lambda>d. py_eq (field d ''EnvironmentId'') env_id) ds"
    using deps by (rule env_deployments_of_filter)
  show ?case
  proof (cases env_deployments)
    case Nil
    with filtered have "\<not> deployed_in ds env"
      using filter_empty_list_ex [of "\<lambda>d. py_eq (field d ''EnvironmentId'') env_id" ds]
      by (simp add: deployed_in_def fid)
    moreover from rest Nil have "environment_statuses_loop self srv envs deployments h = (Inr statuses, h')"
      by simp
    ultimately show ?thesis using Cons.IH by simp
  next
    case (Cons latest older)
    then have "env_deployments \<noteq> []"
      by simp
    then have "filter (\<lambda>d. py_eq (field d ''EnvironmentId'') env_id) ds \<noteq> []"
      unfolding filtered .
    then have yes: "deployed_in ds env"
      by (simp add: deployed_in_def fid filter_empty_list_ex)
    from rest Cons obtain st h1 more where
      more: "environment_statuses_loop self srv envs deployments h1 = (Inr more, h')" and
      statuses: "statuses = JObj [(''environment'', JObj [(''id'', env_id), (''name'', env_name)]),
                    (''deployment_status'', st)] # more"
      by (auto elim!: io_bind_InrE simp: io_return_def)
    from more have "map (\<lambda>s. field s ''environment'') more = map env_ref (filter (deployed_in ds) envs)"
      by (rule Cons.IH)
    moreover have "field (JObj [(''environment'', JObj [(''id'', env_id), (''name'', env_name)]),
                    (''deployment_status'', st)]) ''environment''
        = JObj [(''id'', env_id), (''name'', env_name)]"
      by (simp add: field_def)
    ultimately show ?thesis
      using yes statuses by (simp add: env_ref_def fid fname)
  qed
qed


lemma environment_statuses_loop_objects:
  "environment_statuses_loop self srv envs deployments h = (Inr statuses, h') \<Longrightarrow>
   (\<forall>e\<in>set envs. is_obj e) \<and> (envs \<noteq> [] \<longrightarrow> (\<exists>ds. py_iter deployments = Inr ds))"
proof (induction envs arbitrary: statuses h)
  case Nil
  then show ?case by simp
next
  case (Cons env envs)
  from Cons.prems obtain env_id env_name env_deployments ds where
    id: "py_get env ''Id'' JNull = Inr env_id" and
    iter: "py_iter deployments = Inr ds" and
    rest: "(case env_deployments of
         [] \<Rightarrow> environment_statuses_loop self srv envs deployments
       | latest_deployment # older \<Rightarrow>
           io_bind (get_deployment_status self srv latest_deployment) (\<lambda>deployment_status.
           io_bind (environment_statuses_loop self srv envs deployments) (\<lambda>rest.
           io_return
             (JObj [(''environment'', JObj [(''id'', env_id), (''name'', env_name)]),
                    (''deployment_status'', deployment_status)] # rest)))) h = (Inr statuses, h')"
    by (auto elim!: io_bind_InrE simp: io_lift_def res_bind_def split: sum.splits)
  from id have obj: "is_obj env" by (cases env) auto
  from rest obtain more h1 where "environment_statuses_loop self srv envs deployments h1 = (Inr more, h')"
    by (cases env_deployments) (auto elim!: io_bind_InrE simp: io_return_def)
  then have "\<forall>e\<in>set envs. is_obj e" using Cons.IH by blast
  with obj iter show ?case by simp
qed

lemma iter_objects:
  assumes "py_iter x = Inr envs" and "truthy x" and "\<forall>e\<in>set envs. is_obj e"
  shows "x = JList envs \<and> envs \<noteq> []"
  using assms by (cases x) (auto simp: neq_Nil_conv)

text \<open>A run that ends with a success payload went through every step of the tool.\<close>

lemma check_run:
  assumes "check_deployment_status self srv project_name release_version_arg environment_name_arg
             space_name_arg h = (Inr p, h')"
    and "success_payload p"
  shows "\<exists>space h1 space_id project h2 project_id releases_response h3 releases release
           to_check h4 release_id response h5 items statuses so po ro total.
       get_space self srv (Some (with_default ''Default'' space_name_arg)) h = (Inr space, h1)
     \<and> subscript space ''Id'' = Inr space_id
     \<and> get_by_name self srv (py_str space_id @ ''/projects/all'') project_name h1 = (Inr project, h2)
     \<and> subscript project ''Id'' = Inr project_id
     \<and> get_project_releases self srv space_id project_id h2 = (Inr releases_response, h3)
     \<and> items_field releases_response = Inr releases
     \<and> find_release releases (normalize (with_default [] release_version_arg)) = Inr release
     \<and> truthy release
     \<and> get_environments_to_check self srv space_id
           (normalize (with_default [] environment_name_arg)) h3 = (Inr to_check, h4)
     \<and> truthy to_check
     \<and> subscript release ''Id'' = Inr release_id
     \<and> make_request self srv (py_str space_id @ ''/releases/'' @ py_str release_id @ ''/deployments'')
           ''GET'' None h4 = (Inr response, h5)
     \<and> items_field response = Inr items
     \<and> build_environment_statuses self srv to_check items h5 = (Inr statuses, h')
     \<and> pick release release_fields = Inr ro
     \<and> py_len to_check = Inr total
     \<and> p = JObj
            [(''success'', JBool True),
             (''space'', JObj so),
             (''project'', JObj po),
             (''release'', JObj ro),
             (''deployment_statuses'', JList statuses),
             (''summary'', JObj
                [(''total_environments_checked'', JInt (int total)),
                 (''deployed_count'', JInt (int (length statuses))),
                 (''environments_with_deployments'', JInt (int (length statuses)))])]"
  using assms unfolding check_deployment_status_def success_payload_def Let_def
  by (auto elim!: io_bind_InrE simp: io_return_def io_lift_def json_response_def
        error_response_def error_value_def res_bind_def split: if_splits sum.splits)

text \<open>
  C7. Every run of \<^verbatim>\<open>check_deployment_status\<close> that ends with a success payload went, from
  the requests sent before it and with the arguments of the call, through these steps: it
  selected a release (space and project of the call, version of the call), it obtained the
  list of environments to check from \<^verbatim>\<open>_get_environments_to_check\<close> for the environment name
  of the call, and it fetched the deployments of the selected release. Its payload reports
  that release and satisfies: \<^verbatim>\<open>deployment_statuses\<close> has one entry for each checked
  environment that one of these deployments targets, in order, and none for the others;
  \<^verbatim>\<open>deployed_count\<close> and \<^verbatim>\<open>environments_with_deployments\<close> are both the length of
  \<^verbatim>\<open>deployment_statuses\<close>; \<^verbatim>\<open>total_environments_checked\<close> is the number of environments
  checked; and when no checked environment has a deployment, \<^verbatim>\<open>deployment_statuses\<close> is the
  empty list and \<^verbatim>\<open>deployed_count\<close> is 0.
\<close>

theorem check_deployment_status_summary:
  assumes "check_deployment_status self srv project_name release_version_arg environment_name_arg
             space_name_arg h = (Inr p, h')"
    and "success_payload p"
  shows "\<exists>space_id release h3 envs h4 release_id response h5 items deployments statuses.
       selects_release self srv project_name release_version_arg space_name_arg h
         space_id release h3
     \<and> get_environments_to_check self srv space_id
           (normalize (with_default [] environment_name_arg)) h3 = (Inr (JList envs), h4)
     \<and> subscript release ''Id'' = Inr release_id
     \<and> make_request self srv (py_str space_id @ ''/releases/'' @ py_str release_id @ ''/deployments'')
           ''GET'' None h4 = (Inr response, h5)
     \<and> items_field response = Inr items
     \<and> py_iter items = Inr deployments
     \<and> build_environment_statuses self srv (JList envs) items h5 = (Inr statuses, h')
     \<and> field p ''release''
         = JObj [(''id'', field release ''Id''), (''version'', field release ''Version'')]
     \<and> field p ''deployment_statuses'' = JList statuses
     \<and> map (\<lambda>s. field s ''environment'') statuses
         = map env_ref (filter (deployed_in deployments) envs)
     \<and> field p ''summary'' = JObj
           [(''total_environments_checked'', JInt (int (length envs))),
            (''deployed_count'', JInt (int (length statuses))),
            (''environments_with_deployments'', JInt (int (length statuses)))]
     \<and> (\<not> list_ex (deployed_in deployments) envs \<longrightarrow>
           field p ''deployment_statuses'' = JList []
           \<and> field (field p ''summary'') ''deployed_count'' = JInt 0)"
proof -
  from check_run [OF assms] obtain space h1 space_id project h2 project_id releases_response h3
      releases release to_check h4 release_id response h5 items statuses so po ro total where
    space: "get_space self srv (Some (with_default ''Default'' space_name_arg)) h = (Inr space, h1)"
      "subscript space ''Id'' = Inr space_id" and
    project: "get_by_name self srv (py_str space_id @ ''/projects/all'') project_name h1
        = (Inr project, h2)"
      "subscript project ''Id'' = Inr project_id" and
    releases: "get_project_releases self srv space_id project_id h2 = (Inr releases_response, h3)"
      "items_field releases_response = Inr releases" and
    release: "find_release releases (normalize (with_default [] release_version_arg)) = Inr release"
      "truthy release" and
    checked: "get_environments_to_check self srv space_id
        (normalize (with_default [] environment_name_arg)) h3 = (Inr to_check, h4)" and
    truthy: "truthy to_check" and
    release_id: "subscript release ''Id'' = Inr release_id" and
    fetched: "make_request self srv
        (py_str space_id @ ''/releases/'' @ py_str release_id @ ''/deployments'') ''GET'' None h4
        = (Inr response, h5)" and
    items: "items_field response = Inr items" and
    built: "build_environment_statuses self srv to_check items h5 = (Inr statuses, h')" and
    ro: "pick release release_fields = Inr ro" and
    total: "py_len to_check = Inr total" and
    p: "p = JObj
            [(''success'', JBool True),
             (''space'', JObj so),
             (''project'', JObj po),
             (''release'', JObj ro),
             (''deployment_statuses'', JList statuses),
             (''summary'', JObj
                [(''total_environments_checked'', JInt (int total)),
                 (''deployed_count'', JInt (int (length statuses))),
                 (''environments_with_deployments'', JInt (int (length statuses)))])]"
    by (elim exE conjE) (rule that)
  have selected: "selects_release self srv project_name release_version_arg space_name_arg h
      space_id release h3"
    unfolding selects_release_def using space project releases release by blast
  from built obtain envs where
    iter: "py_iter to_check = Inr envs" and
    loop: "environment_statuses_loop self srv envs items h5 = (Inr statuses, h')"
    unfolding build_environment_statuses_def
    by (auto elim!: io_bind_InrE simp: io_lift_def)
  from environment_statuses_loop_objects [OF loop] have
    objects: "\<forall>e\<in>set envs. is_obj e" and
    iterable: "envs \<noteq> [] \<longrightarrow> (\<exists>ds. py_iter items = Inr ds)"
    by blast+
  from iter_objects [OF iter truthy objects] have to_check: "to_check = JList envs" and "envs \<noteq> []"
    by blast+
  with iterable obtain deployments where deployments: "py_iter items = Inr deployments"
    by blast
  have omitted: "map (\<lambda>s. field s ''environment'') statuses
      = map env_ref (filter (deployed_in deployments) envs)"
    using loop deployments by (rule environment_statuses_loop_omits)
  have count: "total = length envs"
    using total to_check by simp
  from release_id obtain rkvs where rkvs: "release = JObj rkvs"
    by (cases release) auto
  have reported: "field p ''release''
      = JObj [(''id'', field release ''Id''), (''version'', field release ''Version'')]"
    using ro by (auto simp: p field_def rkvs release_fields_def res_bind_def)
  have statuses: "field p ''deployment_statuses'' = JList statuses"
    by (simp add: p field_def)
  have summary: "field p ''summary'' = JObj
           [(''total_environments_checked'', JInt (int (length envs))),
            (''deployed_count'', JInt (int (length statuses))),
            (''environments_with_deployments'', JInt (int (length statuses)))]"
    by (simp add: p field_def count)
  have none: "statuses = []" if "\<not> list_ex (deployed_in deployments) envs"
  proof -
    from that have "filter (deployed_in deployments) envs = []"
      by (simp add: filter_empty_list_ex)
    with omitted show ?thesis by simp
  qed
  have zero: "\<not> list_ex (deployed_in deployments) envs \<longrightarrow>
           field p ''deployment_statuses'' = JList []
           \<and> field (field p ''summary'') ''deployed_count'' = JInt 0"
    using none statuses summary by (simp add: field_def)
  from selected checked [unfolded to_check] release_id fetched items deployments
    built [unfolded to_check] reported statuses omitted summary zero
  show ?thesis by blast
qed

text \<open>The further definitions that a run of the status check unfolds.\<close>

lemmas status_defs = check_deployment_status_def get_environments_to_check_def
  build_environment_statuses_def get_deployment_status_def normalize_def strip_def is_space_def
  find_release_def space_fields_def release_fields_def Let_def

text \<open>
  The second of two releases is asked for, and its deployments are the ones fetched. Of the
  two environments Production and Staging only Production has a deployment of it: two
  environments are checked, one status is reported.
\<close>

theorem check_deployment_status_summary_witness:
  "\<exists>p h'.
     check_deployment_status test_tools remote_second_release_in_production ''TestProject''
         (Some ''2.0'') None (Some ''Default'') [] = (Inr p, h')
     \<and> success_payload p
     \<and> get_request ''Spaces-1/releases/Releases-2/deployments'' \<in> set h'
     \<and> field p ''summary'' = JObj
           [(''total_environments_checked'', JInt 2),
            (''deployed_count'', JInt 1),
            (''environments_with_deployments'', JInt 1)]
     \<and> (\<exists>space_id release h3 envs h4 deployments statuses.
           selects_release test_tools remote_second_release_in_production ''TestProject''
             (Some ''2.0'') (Some ''Default'') [] space_id release h3
           \<and> field release ''Id'' = JStr ''Releases-2''
           \<and> get_environments_to_check test_tools remote_second_release_in_production space_id
                 (normalize (with_default [] None)) h3 = (Inr (JList envs), h4)
           \<and> field p ''deployment_statuses'' = JList statuses
           \<and> map (\<lambda>s. field s ''environment'') statuses
               = map env_ref (filter (deployed_in deployments) envs)
           \<and> field p ''summary'' = JObj
                 [(''total_environments_checked'', JInt (int (length envs))),
                  (''deployed_count'', JInt (int (length statuses))),
                  (''environments_with_deployments'', JInt (int (length statuses)))])"
proof -
  have "\<exists>p h'. check_deployment_status test_tools remote_second_release_in_production ''TestProject''
         (Some ''2.0'') None (Some ''Default'') [] = (Inr p, h')
     \<and> success_payload p
     \<and> get_request ''Spaces-1/releases/Releases-2/deployments'' \<in> set h'
     \<and> field p ''release'' = JObj [(''id'', JStr ''Releases-2''), (''version'', JStr ''2.0'')]
     \<and> field p ''summary'' = JObj
           [(''total_environments_checked'', JInt 2),
            (''deployed_count'', JInt 1),
            (''environments_with_deployments'', JInt 1)]"
    by (simp add: remote_second_release_in_production_def status_defs run_defs sample_defs
          second_release_data_def staging_environment_data_def success_payload_def field_def
          get_request_def)
  then obtain p h' where
    run: "check_deployment_status test_tools remote_second_release_in_production ''TestProject''
         (Some ''2.0'') None (Some ''Default'') [] = (Inr p, h')" and
    success: "success_payload p" and
    asked: "get_request ''Spaces-1/releases/Releases-2/deployments'' \<in> set h'" and
    reported: "field p ''release''
        = JObj [(''id'', JStr ''Releases-2''), (''version'', JStr ''2.0'')]" and
    summary: "field p ''summary'' = JObj
           [(''total_environments_checked'', JInt 2),
            (''deployed_count'', JInt 1),
            (''environments_with_deployments'', JInt 1)]"
    by blast
  from check_deployment_status_summary [OF run success]
  obtain space_id release h3 envs h4 deployments statuses where
    "selects_release test_tools remote_second_release_in_production ''TestProject''
             (Some ''2.0'') (Some ''Default'') [] space_id release h3"
    "get_environments_to_check test_tools remote_second_release_in_production space_id
                 (normalize (with_default [] None)) h3 = (Inr (JList envs), h4)"
    "field p ''release''
         = JObj [(''id'', field release ''Id''), (''version'', field release ''Version'')]"
    "field p ''deployment_statuses'' = JList statuses"
    "map (\<lambda>s. field s ''environment'') statuses
               = map env_ref (filter (deployed_in deployments) envs)"
    "field p ''summary'' = JObj
                 [(''total_environments_checked'', JInt (int (length envs))),
                  (''deployed_count'', JInt (int (length statuses))),
                  (''environments_with_deployments'', JInt (int (length statuses)))]"
    by blast
  moreover from this(3) reported have "field release ''Id'' = JStr ''Releases-2''"
    by simp
  ultimately show ?thesis
    using run success asked summary by blast
qed

subsection \<open>Checking the status when no environment can be checked\<close>

lemma normalize_blank:
  assumes "strip (with_default [] arg) = []"
  shows "\<not> truthy_str (normalize (with_default [] arg))"
    and "fmt_opt (normalize (with_default [] arg))
           = (if arg = None \<or> arg = Some [] then ''None'' else [])"
  using assms by (cases arg; auto simp: normalize_def)+

text \<open>
  C9, as the code has it. When the space, the project and the release resolve, the
  environment name is absent, empty or blank (nothing is left of it after
  \<^verbatim>\<open>strip\<close>), and the fetch of all environments of the space yields an error or an empty
  collection, \<^verbatim>\<open>check_deployment_status\<close> returns the environment-not-found error payload and
  not a success with zero environments checked. The message prints the normalized name:
  \<^verbatim>\<open>Environment 'None' not found in <space> space\<close> for an absent or empty name,
  \<^verbatim>\<open>Environment '' not found in <space> space\<close> for a name of white space only.
\<close>

theorem check_deployment_status_no_environments:
  assumes "project_name \<noteq> []"
    and "get_space self srv (Some space_name) h0 = (Inr space, h1)"
    and "truthy space"
    and "subscript space ''Id'' = Inr space_id"
    and "get_by_name self srv (py_str space_id @ ''/projects/all'') project_name h1 = (Inr project, h2)"
    and "truthy project"
    and "subscript project ''Id'' = Inr project_id"
    and "get_project_releases self srv space_id project_id h2 = (Inr releases_response, h3)"
    and "py_in ''error'' releases_response = Inr False"
    and "items_field releases_response = Inr releases"
    and "find_release releases (normalize (with_default [] release_version_arg)) = Inr release"
    and "truthy release"
    and "strip (with_default [] environment_name_arg) = []"
    and "make_request self srv (py_str space_id @ ''/environments/all'') ''GET'' None h3
           = (Inr environments_response, h4)"
    and "py_in ''error'' environments_response = Inr True
         \<or> (\<exists>collection. py_in ''error'' environments_response = Inr False
               \<and> items_either environments_response = Inr collection
               \<and> \<not> truthy collection)"
  shows "check_deployment_status self srv project_name release_version_arg environment_name_arg
           (Some space_name) h0
         = (Inr (error_value
              (''Environment ''
                 @ quoted (if environment_name_arg = None \<or> environment_name_arg = Some []
                           then ''None'' else [])
                 @ '' not found in '' @ space_name @ '' space'')), h4)"
proof -
  note blank = normalize_blank [OF assms(13)]
  from assms(11,12) have sized: "truthy releases"
    using find_release_truthy by blast
  have to_check: "\<exists>c. get_environments_to_check self srv space_id
        (normalize (with_default [] environment_name_arg)) h3 = (Inr c, h4) \<and> \<not> truthy c"
    using assms(14,15) blank(1)
    by (auto simp: get_environments_to_check_def io_bind_def io_lift_def res_bind_def)
  then obtain c where c: "get_environments_to_check self srv space_id
        (normalize (with_default [] environment_name_arg)) h3 = (Inr c, h4)" "\<not> truthy c"
    by blast
  show ?thesis
    using assms(1-12) sized c blank(2)
    by (simp add: check_deployment_status_def io_bind_def io_return_def io_lift_def
          json_response_def error_response_def Let_def)
qed

text \<open>A space without environments, and no environment name: the message names \<^verbatim>\<open>None\<close>.\<close>

theorem check_deployment_status_no_environments_witness:
  "check_deployment_status test_tools remote_no_environments ''TestProject'' (Some ''1.0.0'')
       None (Some ''Default'') []
     = (Inr (error_value (''Environment '' @ quoted ''None'' @ '' not found in Default space'')),
        [get_request ''spaces/all'', get_request ''Spaces-1/projects/all'',
         get_request ''Spaces-1/projects/Projects-1/releases'',
         get_request ''Spaces-1/environments/all''])"
proof -
  have name: "''TestProject'' \<noteq> []"
    by simp
  have space: "get_space test_tools remote_no_environments (Some ''Default'') []
      = (Inr sample_space_data, [get_request ''spaces/all''])"
    by (simp add: remote_no_environments_def get_request_def run_defs sample_defs)
  have space_id: "subscript sample_space_data ''Id'' = Inr (JStr ''Spaces-1'')"
    by (simp add: sample_defs)
  have project: "get_by_name test_tools remote_no_environments
        (py_str (JStr ''Spaces-1'') @ ''/projects/all'') ''TestProject'' [get_request ''spaces/all'']
      = (Inr sample_project_data, [get_request ''spaces/all'', get_request ''Spaces-1/projects/all''])"
    by (simp add: remote_no_environments_def get_request_def run_defs sample_defs)
  have project_id: "subscript sample_project_data ''Id'' = Inr (JStr ''Projects-1'')"
    by (simp add: sample_defs)
  have releases: "get_project_releases test_tools remote_no_environments
        (JStr ''Spaces-1'') (JStr ''Projects-1'')
        [get_request ''spaces/all'', get_request ''Spaces-1/projects/all'']
      = (Inr (JObj [(''Items'', JList [sample_release_data])]),
         [get_request ''spaces/all'', get_request ''Spaces-1/projects/all'',
          get_request ''Spaces-1/projects/Projects-1/releases''])"
    by (simp add: remote_no_environments_def get_request_def run_defs)
  have no_error: "py_in ''error'' (JObj [(''Items'', JList [sample_release_data])]) = Inr False"
    by simp
  have items: "items_field (JObj [(''Items'', JList [sample_release_data])])
      = Inr (JList [sample_release_data])"
    by (simp add: items_field_def)
  have release: "find_release (JList [sample_release_data])
        (normalize (with_default [] (Some ''1.0.0''))) = Inr sample_release_data"
    by (simp add: find_release_def res_bind_def sample_defs normalize_def strip_def is_space_def)
  have blank: "strip (with_default [] None) = []"
    by (simp add: strip_def)
  have fetched: "make_request test_tools remote_no_environments
        (py_str (JStr ''Spaces-1'') @ ''/environments/all'') ''GET'' None
        [get_request ''spaces/all'', get_request ''Spaces-1/projects/all'',
         get_request ''Spaces-1/projects/Projects-1/releases'']
      = (Inr (JList []),
         [get_request ''spaces/all'', get_request ''Spaces-1/projects/all'',
          get_request ''Spaces-1/projects/Projects-1/releases'',
          get_request ''Spaces-1/environments/all''])"
    by (simp add: remote_no_environments_def get_request_def run_defs)
  have empty: "py_in ''error'' (JList []) = Inr True
         \<or> (\<exists>collection. py_in ''error'' (JList []) = Inr False
               \<and> items_either (JList []) = Inr collection
               \<and> \<not> truthy collection)"
    by (simp add: items_either_def)
  have shapes: "truthy sample_space_data" "truthy sample_project_data" "truthy sample_release_data"
    by (simp_all add: sample_defs)
  show ?thesis
    using check_deployment_status_no_environments
      [OF name space shapes(1) space_id project shapes(2) project_id releases no_error items
          release shapes(3) blank fetched empty]
    by simp
qed

text \<open>
  C9 as stated fails for a name that is empty after normalization without being absent: a
  single space as environment name is normalized to the empty text, all environments are
  fetched, and the message prints the empty text between the quotes, not \<^verbatim>\<open>None\<close>.
\<close>

theorem check_deployment_status_blank_name_counterexample:
  "fst (check_deployment_status test_tools remote_no_environments ''TestProject'' (Some ''1.0.0'')
       (Some '' '') (Some ''Default'') [])
     = Inr (error_value (''Environment '' @ quoted [] @ '' not found in Default space''))
   \<and> fst (check_deployment_status test_tools remote_no_environments ''TestProject'' (Some ''1.0.0'')
       (Some '' '') (Some ''Default'') [])
     \<noteq> Inr (error_value (''Environment '' @ quoted ''None'' @ '' not found in Default space''))
   \<and> normalize (with_default [] (Some '' '')) = Some []"
  by (simp add: remote_no_environments_def status_defs run_defs sample_defs quoted_def)

subsection \<open>Creating a release\<close>

lemma select_packages_omits:
  assumes "subscript package ''FeedId'' = Inr feed_id"
    and "subscript package ''PackageId'' = Inr package_id"
    and "make_request self srv (versions_endpoint space_id feed_id package_id) ''GET'' None h
           = (Inr package_response, h1)"
    and "py_in ''error'' package_response = Inr False"
    and "items_either package_response = Inr versions"
    and "\<not> truthy versions"
  shows "select_packages self srv space_id (package # rest) selected h
           = select_packages self srv space_id rest selected h1"
  using assms
  by (simp add: io_bind_def io_lift_def io_return_def versions_endpoint_def)

lemma select_packages_aborts:
  assumes "subscript package ''FeedId'' = Inr feed_id"
    and "subscript package ''PackageId'' = Inr package_id"
    and "make_request self srv (versions_endpoint space_id feed_id package_id) ''GET'' None h
           = (Inr package_response, h1)"
    and "py_in ''error'' package_response = Inr True"
  shows "select_packages self srv space_id (package # rest) selected h
           = (Inr (Inl package_response), h1)"
  using assms
  by (simp add: io_bind_def io_lift_def io_return_def versions_endpoint_def json_response_def)

lemma make_request_returns:
  "\<exists>j h'. make_request self srv endpoint method data h = (Inr j, h')"
  by (simp add: make_request_def Let_def)

lemma select_packages_selects:
  assumes "subscript package ''FeedId'' = Inr feed_id"
    and "subscript package ''PackageId'' = Inr package_id"
    and "make_request self srv (versions_endpoint space_id feed_id package_id) ''GET'' None h
           = (Inr package_response, h1)"
    and "py_in ''error'' package_response = Inr False"
    and "items_either package_response = Inr versions"
    and "truthy versions"
    and "index0 versions = Inr latest"
    and "subscript package ''ActionName'' = Inr action_name"
    and "subscript package ''PackageReferenceName'' = Inr reference_name"
    and "subscript latest ''Version'' = Inr package_version"
  shows "select_packages self srv space_id (package # rest) selected h
           = select_packages self srv space_id rest
               (selected @ [JObj [(''ActionName'', action_name),
                                  (''PackageReferenceName'', reference_name),
                                  (''Version'', package_version)]]) h1"
  using assms
  by (simp add: io_bind_def io_lift_def io_return_def versions_endpoint_def)

lemma select_packages_abort_cause:
  assumes "select_packages self srv space_id packages selected h = (Inr (Inl payload), h')"
  shows "py_in ''error'' payload = Inr True
       \<and> (\<exists>package feed_id package_id h1.
             package \<in> set packages
           \<and> subscript package ''FeedId'' = Inr feed_id
           \<and> subscript package ''PackageId'' = Inr package_id
           \<and> make_request self srv (versions_endpoint space_id feed_id package_id) ''GET'' None h1
               = (Inr payload, h'))"
  using assms
proof (induction packages arbitrary: selected h)
  case Nil
  then show ?case by (simp add: io_return_def)
next
  case (Cons package rest)
  from Cons.prems obtain feed_id package_id package_response h1 failed where
    feed: "subscript package ''FeedId'' = Inr feed_id" and
    pkg: "subscript package ''PackageId'' = Inr package_id" and
    asked: "make_request self srv (versions_endpoint space_id feed_id package_id) ''GET'' None h
        = (Inr package_response, h1)" and
    failed: "py_in ''error'' package_response = Inr failed" and
    rest: "(if failed then io_return (Inl (json_response package_response))
       else
     io_bind (io_lift (items_either package_response)) (\<lambda>packages.
       if truthy packages then
         io_bind (io_lift (index0 packages)) (\<lambda>selected_package.
         io_bind (io_lift (subscript package ''ActionName'')) (\<lambda>action_name.
         io_bind (io_lift (subscript package ''PackageReferenceName'')) (\<lambda>reference_name.
         io_bind (io_lift (subscript selected_package ''Version'')) (\<lambda>package_version.
           select_packages self srv space_id rest
             (selected @
                [JObj [(''ActionName'', action_name),
                       (''PackageReferenceName'', reference_name),
                       (''Version'', package_version)]])))))
       else select_packages self srv space_id rest selected)) h1 = (Inr (Inl payload), h')"
    by (auto elim!: io_bind_InrE simp: io_lift_def versions_endpoint_def)
  show ?case
  proof (cases failed)
    case True
    with rest have "payload = package_response" "h' = h1"
      by (simp_all add: io_return_def json_response_def)
    with feed pkg asked failed True show ?thesis
      by auto
  next
    case False
    with rest obtain acc h2 where
      "select_packages self srv space_id rest acc h2 = (Inr (Inl payload), h')"
      by (auto elim!: io_bind_InrE simp: io_lift_def split: if_splits)
    from Cons.IH [OF this] show ?thesis
      by auto
  qed
qed

text \<open>What \<^verbatim>\<open>create_release\<close> does once the loop over the package requirements has ended.\<close>

lemma create_release_after_loop:
  assumes "project_name \<noteq> []" and "version \<noteq> []"
    and "get_space self srv (Some space_name) h0 = (Inr space, h1)"
    and "truthy space"
    and "subscript space ''Id'' = Inr space_id"
    and "get_by_name self srv (py_str space_id @ ''/projects/all'') project_name h1 = (Inr project, h2)"
    and "truthy project"
    and "subscript project ''Id'' = Inr project_id"
    and "get_by_name self srv (py_str space_id @ ''/projects/'' @ py_str project_id @ ''/channels'')
           channel_name h2 = (Inr channel, h3)"
    and "truthy channel"
    and "subscript channel ''Id'' = Inr channel_id"
    and "make_request self srv
           (py_str space_id @ ''/deploymentprocesses/deploymentprocess-'' @ py_str project_id
              @ ''/template?channel='' @ py_str channel_id) ''GET'' None h3
           = (Inr template_response, h4)"
    and "py_in ''error'' template_response = Inr False"
    and "py_get template_response ''Packages'' (JList []) = Inr packages"
    and "py_iter packages = Inr requirements"
    and "select_packages self srv space_id requirements [] h4 = (Inr looped, h5)"
  shows "(\<forall>payload. looped = Inl payload \<longrightarrow>
            create_release self srv project_name version (Some channel_name) (Some space_name) h0
              = (Inr payload, h5))
       \<and> (\<forall>selected. looped = Inr selected \<longrightarrow>
            (\<exists>release_response h6.
               make_request self srv (py_str space_id @ ''/releases'') ''POST''
                   (Some (release_data channel_id project_id version selected)) h5
                 = (Inr release_response, h6)
               \<and> snd (create_release self srv project_name version (Some channel_name)
                        (Some space_name) h0) = h6
               \<and> (py_in ''error'' release_response = Inr True \<longrightarrow>
                     fst (create_release self srv project_name version (Some channel_name)
                            (Some space_name) h0) = Inr release_response)
               \<and> (is_obj release_response \<and> py_in ''error'' release_response = Inr False \<longrightarrow>
                     (\<exists>payload.
                        fst (create_release self srv project_name version (Some channel_name)
                               (Some space_name) h0) = Inr (JObj payload)
                        \<and> map_of payload ''success'' = Some (JBool True)))))"
proof -
  from assms(3,4) obtain skvs where space: "space = JObj skvs"
    by (auto dest: get_space_shape elim: is_objE)
  from assms(6,7) obtain pkvs where project: "project = JObj pkvs"
    by (auto dest: get_by_name_truthy elim: is_objE)
  from assms(9,10) obtain ckvs where channel: "channel = JObj ckvs"
    by (auto dest: get_by_name_truthy elim: is_objE)
  note run = create_release_def io_bind_def io_lift_def io_return_def res_bind_def
    release_data_def json_response_def pick_obj
  note steps = assms(1-3,5,6,8,9,11-16) assms(4,7,10) [unfolded space project channel]
  have aborted: "\<forall>payload. looped = Inl payload \<longrightarrow>
            create_release self srv project_name version (Some channel_name) (Some space_name) h0
              = (Inr payload, h5)"
    using steps unfolding space project channel by (simp add: run)
  have proceeds: "\<exists>release_response h6.
               make_request self srv (py_str space_id @ ''/releases'') ''POST''
                   (Some (release_data channel_id project_id version selected)) h5
                 = (Inr release_response, h6)
               \<and> snd (create_release self srv project_name version (Some channel_name)
                        (Some space_name) h0) = h6
               \<and> (py_in ''error'' release_response = Inr True \<longrightarrow>
                     fst (create_release self srv project_name version (Some channel_name)
                            (Some space_name) h0) = Inr release_response)
               \<and> (is_obj release_response \<and> py_in ''error'' release_response = Inr False \<longrightarrow>
                     (\<exists>payload.
                        fst (create_release self srv project_name version (Some channel_name)
                               (Some space_name) h0) = Inr (JObj payload)
                        \<and> map_of payload ''success'' = Some (JBool True)))"
    if looped: "looped = Inr selected" for selected
  proof -
    obtain release_response h6 where posted:
      "make_request self srv (py_str space_id @ ''/releases'') ''POST''
         (Some (release_data channel_id project_id version selected)) h5 = (Inr release_response, h6)"
      using make_request_returns by blast
    have state: "snd (create_release self srv project_name version (Some channel_name)
                        (Some space_name) h0) = h6"
      using steps looped posted unfolding space project channel
      by (cases "py_in ''error'' release_response"; cases release_response) (auto simp: run)
    have failed: "py_in ''error'' release_response = Inr True \<longrightarrow>
                     fst (create_release self srv project_name version (Some channel_name)
                            (Some space_name) h0) = Inr release_response"
      using steps looped posted unfolding space project channel by (simp add: run)
    have created: "is_obj release_response \<and> py_in ''error'' release_response = Inr False \<longrightarrow>
                     (\<exists>payload.
                        fst (create_release self srv project_name version (Some channel_name)
                               (Some space_name) h0) = Inr (JObj payload)
                        \<and> map_of payload ''success'' = Some (JBool True))"
      using steps looped posted unfolding space project channel
      by (auto elim!: is_objE simp: run)
    from posted state failed created show ?thesis by blast
  qed
  from aborted proceeds show ?thesis by blast
qed


text \<open>
  C10. In the loop of \<^verbatim>\<open>create_release\<close> over the package requirements of the template, each
  requirement that has the keys the loop reads, and whose feed query returns, goes one of
  three ways. A feed answer without error and with an empty version list adds nothing to the
  selected packages, and the loop goes on with the next requirement. A feed answer without
  error whose first version has a \<^verbatim>\<open>Version\<close> adds the entry of that version, and the loop goes
  on. A feed answer that is an error value ends the tool with that value. After the last
  requirement the loop ends with the packages selected so far. Whenever the loop ends the
  tool, it does so with the answer of a feed query of one of the requirements, and that
  answer holds an error. When the loop has ended with a list of selected packages, whether
  or not requirements were left out, the tool sends the release-creation POST with exactly
  that list and reports its outcome; when the loop ended the tool, no POST is sent.
\<close>

theorem create_release_omits_empty_feed:
  "(subscript package ''FeedId'' = Inr feed_id \<longrightarrow>
    subscript package ''PackageId'' = Inr package_id \<longrightarrow>
    make_request self srv (versions_endpoint space_id feed_id package_id) ''GET'' None h
      = (Inr package_response, h') \<longrightarrow>
      (py_in ''error'' package_response = Inr False \<longrightarrow>
       items_either package_response = Inr versions \<longrightarrow>
       \<not> truthy versions \<longrightarrow>
         select_packages self srv space_id (package # rest) selected h
           = select_packages self srv space_id rest selected h')
      \<and> (py_in ''error'' package_response = Inr False \<longrightarrow>
         items_either package_response = Inr versions \<longrightarrow>
         truthy versions \<longrightarrow>
         index0 versions = Inr latest \<longrightarrow>
         subscript package ''ActionName'' = Inr action_name \<longrightarrow>
         subscript package ''PackageReferenceName'' = Inr reference_name \<longrightarrow>
         subscript latest ''Version'' = Inr package_version \<longrightarrow>
           select_packages self srv space_id (package # rest) selected h
             = select_packages self srv space_id rest
                 (selected @ [JObj [(''ActionName'', action_name),
                                    (''PackageReferenceName'', reference_name),
                                    (''Version'', package_version)]]) h')
      \<and> (py_in ''error'' package_response = Inr True \<longrightarrow>
         select_packages self srv space_id (package # rest) selected h
           = (Inr (Inl package_response), h')))
   \<and> select_packages self srv space_id [] selected h = (Inr (Inr selected), h)
   \<and> (select_packages self srv space_id requirements selected h = (Inr (Inl aborted), h') \<longrightarrow>
        py_in ''error'' aborted = Inr True
        \<and> (\<exists>asked feed package_name before.
              asked \<in> set requirements
            \<and> subscript asked ''FeedId'' = Inr feed
            \<and> subscript asked ''PackageId'' = Inr package_name
            \<and> make_request self srv (versions_endpoint space_id feed package_name) ''GET'' None before
                = (Inr aborted, h')))
   \<and> (project_name \<noteq> [] \<longrightarrow> version \<noteq> [] \<longrightarrow>
      get_space self srv (Some space_name) h0 = (Inr space, h1) \<longrightarrow>
      truthy space \<longrightarrow>
      subscript space ''Id'' = Inr space_id \<longrightarrow>
      get_by_name self srv (py_str space_id @ ''/projects/all'') project_name h1 = (Inr project, h2) \<longrightarrow>
      truthy project \<longrightarrow>
      subscript project ''Id'' = Inr project_id \<longrightarrow>
      get_by_name self srv (py_str space_id @ ''/projects/'' @ py_str project_id @ ''/channels'')
        channel_name h2 = (Inr channel, h3) \<longrightarrow>
      truthy channel \<longrightarrow>
      subscript channel ''Id'' = Inr channel_id \<longrightarrow>
      make_request self srv
        (py_str space_id @ ''/deploymentprocesses/deploymentprocess-'' @ py_str project_id
           @ ''/template?channel='' @ py_str channel_id) ''GET'' None h3
        = (Inr template_response, h4) \<longrightarrow>
      py_in ''error'' template_response = Inr False \<longrightarrow>
      py_get template_response ''Packages'' (JList []) = Inr packages \<longrightarrow>
      py_iter packages = Inr requirements \<longrightarrow>
      select_packages self srv space_id requirements [] h4 = (Inr looped, h5) \<longrightarrow>
        (\<forall>payload. looped = Inl payload \<longrightarrow>
            create_release self srv project_name version (Some channel_name) (Some space_name) h0
              = (Inr payload, h5))
        \<and> (\<forall>chosen. looped = Inr chosen \<longrightarrow>
            (\<exists>release_response h6.
               make_request self srv (py_str space_id @ ''/releases'') ''POST''
                   (Some (release_data channel_id project_id version chosen)) h5
                 = (Inr release_response, h6)
               \<and> snd (create_release self srv project_name version (Some channel_name)
                        (Some space_name) h0) = h6
               \<and> (py_in ''error'' release_response = Inr True \<longrightarrow>
                     fst (create_release self srv project_name version (Some channel_name)
                            (Some space_name) h0) = Inr release_response)
               \<and> (is_obj release_response \<and> py_in ''error'' release_response = Inr False \<longrightarrow>
                     (\<exists>payload.
                        fst (create_release self srv project_name version (Some channel_name)
                               (Some space_name) h0) = Inr (JObj payload)
                        \<and> map_of payload ''success'' = Some (JBool True))))))"
proof -
  have empty: "select_packages self srv space_id [] selected h = (Inr (Inr selected), h)"
    by (simp add: io_return_def)
  have cause: "select_packages self srv space_id requirements selected h = (Inr (Inl aborted), h') \<longrightarrow>
        py_in ''error'' aborted = Inr True
        \<and> (\<exists>asked feed package_name before.
              asked \<in> set requirements
            \<and> subscript asked ''FeedId'' = Inr feed
            \<and> subscript asked ''PackageId'' = Inr package_name
            \<and> make_request self srv (versions_endpoint space_id feed package_name) ''GET'' None before
                = (Inr aborted, h'))"
    using select_packages_abort_cause [of self srv space_id requirements selected h aborted h']
    by blast
  show ?thesis
    using empty cause
      select_packages_omits [of package feed_id package_id self srv space_id h package_response h'
          versions rest selected]
      select_packages_selects [of package feed_id package_id self srv space_id h package_response h'
          versions latest action_name reference_name package_version rest selected]
      select_packages_aborts [of package feed_id package_id self srv space_id h package_response h'
          rest selected]
      create_release_after_loop [of project_name version self srv space_name h0 space h1 space_id
          project h2 project_id channel_name channel h3 channel_id template_response h4 packages
          requirements looped h5]
    by (simp (no_asm_simp) only: simp_thms) blast
qed

text \<open>The data that a run of the release creation unfolds.\<close>

lemmas release_run_defs = versions_endpoint_def release_data_def
  channel_data_def unavailable_package_def available_package_def selected_available_package_def
  created_release_def

text \<open>
  A template with two package requirements, the first without any version in its feed: the
  first is left out, the release is created with the second alone, and the tool reports
  success.
\<close>

theorem create_release_omits_empty_feed_witness:
  "select_packages test_tools remote_one_feed_empty (JStr ''Spaces-1'')
       [unavailable_package, available_package] []
       [get_request ''spaces/all'', get_request ''Spaces-1/projects/all'',
        get_request ''Spaces-1/projects/Projects-1/channels'',
        get_request ''Spaces-1/deploymentprocesses/deploymentprocess-Projects-1/template?channel=Channels-1'']
     = select_packages test_tools remote_one_feed_empty (JStr ''Spaces-1'')
       [available_package] []
       [get_request ''spaces/all'', get_request ''Spaces-1/projects/all'',
        get_request ''Spaces-1/projects/Projects-1/channels'',
        get_request ''Spaces-1/deploymentprocesses/deploymentprocess-Projects-1/template?channel=Channels-1'',
        get_request ''Spaces-1/feeds/Feeds-1/packages/versions?packageId=Tools&take=1'']
   \<and> (\<exists>payload.
        create_release test_tools remote_one_feed_empty ''TestProject'' ''1.1.0''
            (Some ''Default'') (Some ''Default'') []
          = (Inr (JObj payload),
             [get_request ''spaces/all'', get_request ''Spaces-1/projects/all'',
              get_request ''Spaces-1/projects/Projects-1/channels'',
              get_request ''Spaces-1/deploymentprocesses/deploymentprocess-Projects-1/template?channel=Channels-1'',
              get_request ''Spaces-1/feeds/Feeds-1/packages/versions?packageId=Tools&take=1'',
              get_request ''Spaces-1/feeds/Feeds-1/packages/versions?packageId=MyApp&take=1'',
              build_request test_tools ''Spaces-1/releases'' ''POST''
                (Some (release_data (JStr ''Channels-1'') (JStr ''Projects-1'') ''1.1.0''
                         [selected_available_package]))])
        \<and> map_of payload ''success'' = Some (JBool True))"
proof -
  let ?h4 = "[get_request ''spaces/all'', get_request ''Spaces-1/projects/all'',
        get_request ''Spaces-1/projects/Projects-1/channels'',
        get_request ''Spaces-1/deploymentprocesses/deploymentprocess-Projects-1/template?channel=Channels-1'']"
  let ?h5 = "?h4 @ [get_request ''Spaces-1/feeds/Feeds-1/packages/versions?packageId=Tools&take=1'']"
  let ?h6 = "?h5 @ [get_request ''Spaces-1/feeds/Feeds-1/packages/versions?packageId=MyApp&take=1'']"
  let ?post = "build_request test_tools ''Spaces-1/releases'' ''POST''
                (Some (release_data (JStr ''Channels-1'') (JStr ''Projects-1'') ''1.1.0''
                         [selected_available_package]))"
  note loop_part = create_release_omits_empty_feed [THEN conjunct1, rule_format]
  note end_part = create_release_omits_empty_feed [THEN conjunct2, THEN conjunct1]
  note tool_part =
    create_release_omits_empty_feed [THEN conjunct2, THEN conjunct2, THEN conjunct2, rule_format]
  have feed_id: "subscript unavailable_package ''FeedId'' = Inr (JStr ''Feeds-1'')"
    and package_id: "subscript unavailable_package ''PackageId'' = Inr (JStr ''Tools'')"
    by (simp_all add: unavailable_package_def)
  have asked: "make_request test_tools remote_one_feed_empty
        (versions_endpoint (JStr ''Spaces-1'') (JStr ''Feeds-1'') (JStr ''Tools'')) ''GET'' None ?h4
      = (Inr (JObj [(''Items'', JList [])]), ?h5)"
    by (simp add: remote_one_feed_empty_def get_request_def run_defs release_run_defs)
  have answer: "py_in ''error'' (JObj [(''Items'', JList [])]) = Inr False"
      "items_either (JObj [(''Items'', JList [])]) = Inr (JList [])"
      "\<not> truthy (JList [])"
    by (simp_all add: items_either_def)
  have omitted: "select_packages test_tools remote_one_feed_empty (JStr ''Spaces-1'')
       [unavailable_package, available_package] [] ?h4
     = select_packages test_tools remote_one_feed_empty (JStr ''Spaces-1'')
       [available_package] [] ?h5"
    using loop_part [THEN conjunct1, rule_format, OF feed_id package_id asked answer] .
  have feed_id': "subscript available_package ''FeedId'' = Inr (JStr ''Feeds-1'')"
    and package_id': "subscript available_package ''PackageId'' = Inr (JStr ''MyApp'')"
    and action: "subscript available_package ''ActionName'' = Inr (JStr ''Deploy Package'')"
    and reference: "subscript available_package ''PackageReferenceName'' = Inr (JStr ''MyPackage'')"
    by (simp_all add: available_package_def)
  have asked': "make_request test_tools remote_one_feed_empty
        (versions_endpoint (JStr ''Spaces-1'') (JStr ''Feeds-1'') (JStr ''MyApp'')) ''GET'' None ?h5
      = (Inr (JList [JObj [(''Version'', JStr ''1.0.5'')]]), ?h6)"
    by (simp add: remote_one_feed_empty_def get_request_def run_defs release_run_defs)
  have answer': "py_in ''error'' (JList [JObj [(''Version'', JStr ''1.0.5'')]]) = Inr False"
      "items_either (JList [JObj [(''Version'', JStr ''1.0.5'')]])
         = Inr (JList [JObj [(''Version'', JStr ''1.0.5'')]])"
      "truthy (JList [JObj [(''Version'', JStr ''1.0.5'')]])"
      "index0 (JList [JObj [(''Version'', JStr ''1.0.5'')]]) = Inr (JObj [(''Version'', JStr ''1.0.5'')])"
    by (simp_all add: items_either_def)
  have latest: "subscript (JObj [(''Version'', JStr ''1.0.5'')]) ''Version'' = Inr (JStr ''1.0.5'')"
    by simp
  have rest: "select_packages test_tools remote_one_feed_empty (JStr ''Spaces-1'')
       [available_package] [] ?h5 = (Inr (Inr [selected_available_package]), ?h6)"
    using loop_part [THEN conjunct2, THEN conjunct1, rule_format,
            OF feed_id' package_id' asked' answer' action reference latest, of "[]" "[]"]
          end_part [of test_tools remote_one_feed_empty "JStr ''Spaces-1''"
            "[selected_available_package]" ?h6]
    by (simp add: selected_available_package_def)
  have names: "''TestProject'' \<noteq> []" "''1.1.0'' \<noteq> []"
    by simp_all
  have space: "get_space test_tools remote_one_feed_empty (Some ''Default'') []
      = (Inr sample_space_data, [get_request ''spaces/all''])"
    by (simp add: remote_one_feed_empty_def get_request_def run_defs sample_defs)
  have space_id: "subscript sample_space_data ''Id'' = Inr (JStr ''Spaces-1'')"
    by (simp add: sample_defs)
  have project: "get_by_name test_tools remote_one_feed_empty
        (py_str (JStr ''Spaces-1'') @ ''/projects/all'') ''TestProject'' [get_request ''spaces/all'']
      = (Inr sample_project_data, [get_request ''spaces/all'', get_request ''Spaces-1/projects/all''])"
    by (simp add: remote_one_feed_empty_def get_request_def run_defs sample_defs)
  have project_id: "subscript sample_project_data ''Id'' = Inr (JStr ''Projects-1'')"
    by (simp add: sample_defs)
  have channel: "get_by_name test_tools remote_one_feed_empty
        (py_str (JStr ''Spaces-1'') @ ''/projects/'' @ py_str (JStr ''Projects-1'') @ ''/channels'')
        ''Default'' [get_request ''spaces/all'', get_request ''Spaces-1/projects/all'']
      = (Inr channel_data, [get_request ''spaces/all'', get_request ''Spaces-1/projects/all'',
           get_request ''Spaces-1/projects/Projects-1/channels''])"
    by (simp add: remote_one_feed_empty_def get_request_def run_defs release_run_defs)
  have channel_id: "subscript channel_data ''Id'' = Inr (JStr ''Channels-1'')"
    by (simp add: channel_data_def)
  have template: "make_request test_tools remote_one_feed_empty
        (py_str (JStr ''Spaces-1'') @ ''/deploymentprocesses/deploymentprocess-''
           @ py_str (JStr ''Projects-1'') @ ''/template?channel='' @ py_str (JStr ''Channels-1''))
        ''GET'' None
        [get_request ''spaces/all'', get_request ''Spaces-1/projects/all'',
         get_request ''Spaces-1/projects/Projects-1/channels'']
      = (Inr (JObj [(''Packages'', JList [unavailable_package, available_package])]), ?h4)"
    by (simp add: remote_one_feed_empty_def get_request_def run_defs)
  have packages: "py_in ''error'' (JObj [(''Packages'', JList [unavailable_package, available_package])])
        = Inr False"
      "py_get (JObj [(''Packages'', JList [unavailable_package, available_package])]) ''Packages''
         (JList []) = Inr (JList [unavailable_package, available_package])"
      "py_iter (JList [unavailable_package, available_package])
         = Inr [unavailable_package, available_package]"
    by simp_all
  have shapes: "truthy sample_space_data" "truthy sample_project_data" "truthy channel_data"
    by (simp_all add: sample_defs channel_data_def)
  have looped: "select_packages test_tools remote_one_feed_empty (JStr ''Spaces-1'')
       [unavailable_package, available_package] [] ?h4
     = (Inr (Inr [selected_available_package]), ?h6)"
    using omitted rest by simp
  have posted: "make_request test_tools remote_one_feed_empty
        (py_str (JStr ''Spaces-1'') @ ''/releases'') ''POST''
        (Some (release_data (JStr ''Channels-1'') (JStr ''Projects-1'') ''1.1.0''
                 [selected_available_package])) ?h6
      = (Inr created_release, ?h6 @ [?post])"
    by (simp add: remote_one_feed_empty_def get_request_def run_defs)
  have created: "is_obj created_release \<and> py_in ''error'' created_release = Inr False"
    by (simp add: created_release_def)
  from tool_part [OF names space shapes(1) space_id project shapes(2) project_id channel shapes(3)
      channel_id template packages looped, THEN conjunct2, rule_format, of "[selected_available_package]"]
  obtain payload where
    "fst (create_release test_tools remote_one_feed_empty ''TestProject'' ''1.1.0''
            (Some ''Default'') (Some ''Default'') []) = Inr (JObj payload)"
    "snd (create_release test_tools remote_one_feed_empty ''TestProject'' ''1.1.0''
            (Some ''Default'') (Some ''Default'') []) = ?h6 @ [?post]"
    "map_of payload ''success'' = Some (JBool True)"
    using posted created by auto
  then have "\<exists>payload.
        create_release test_tools remote_one_feed_empty ''TestProject'' ''1.1.0''
            (Some ''Default'') (Some ''Default'') [] = (Inr (JObj payload), ?h6 @ [?post])
        \<and> map_of payload ''success'' = Some (JBool True)"
    by (metis prod.collapse)
  with omitted show ?thesis by simp
qed

subsection \<open>Bare lists and wrapped lists\<close>















end
